theory Spec2Isabelle
  imports
    Complex_Main
    "HOL-Library.AList"
    "HOL-Library.Char_ord"
    "HOL-Library.List_Lexorder"
begin

section \<open>Conventions of the embedding\<close>

text \<open>
  The Python sources of the drift detector and of the model lifecycle manager are embedded
  as HOL functions.  Mutation of \<open>self\<close> is explicit state passing, a Python \<open>dict\<close> is an
  association list in insertion order (\<open>AList.update\<close> overwrites in place or appends, as
  assignment to a \<open>dict\<close> key does), and the early returns of the source are the branches
  of the model.

  A Python \<open>float\<close> is a \<open>real\<close>: the sums, differences, products and quotients that
  the sources write out are exact, and infinities and overflow are outside the model.
  \<open>np.mean\<close> and \<open>np.var\<close>, whose rounding decides the comparison of the adaptive window,
  are parameters of the model (\<open>numpy_fns\<close>), with a stand-in that rounds as IEEE 754
  doubles do.  The one place where the source relies on a NaN is kept (see
  \<open>hoeffding_epsilon\<close>).

  The other library calls the sources make are parameters of the model as well: SHA-256
  and \<open>pickle\<close> for the registry, the statistical tests for the drift engine, the
  trainer and the clock for the retraining engine, and for the validator the numbers its
  checks measure with scikit-learn and numpy.  What \<open>json.dumps\<close> accepts is modelled on
  the values the retraining engine hands to it.
\<close>

section \<open>Model registry (\<open>backend/engines/model_registry.py\<close>)\<close>

text \<open>The bytes of a file; a \<open>char\<close> is a byte.\<close>

type_synonym blob = string

record ModelMetadata =
  version :: string
  created_at :: string
  model_type :: string
  accuracy :: real
  drift_score :: real
  training_samples :: nat
  validation_samples :: nat
  hyperparameters :: "(string \<times> int) list"
  feature_names :: "string list"
  checksum :: string
  promoted :: bool
  champion :: bool
  notes_str :: string

text \<open>
  The three library functions of the registry: \<open>hashlib.sha256(...).hexdigest()\<close> of a
  file's bytes, \<open>pickle.dump\<close> and \<open>pickle.load\<close> (\<open>None\<close> when unpickling raises).
\<close>

record 'm registry_io =
  sha256_hexdigest :: "blob \<Rightarrow> string"
  pickle_dump :: "'m \<Rightarrow> blob"
  pickle_load :: "blob \<Rightarrow> 'm option"

text \<open>
  The registry: \<open>models\<close> is \<open>self.models\<close>; \<open>files\<close> is the content of the registry
  directory, keyed by file name; \<open>registry_json\<close> is the table last written by
  \<open>_save_registry\<close>; \<open>audit\<close> is the audit log, one entry per \<open>_log_audit\<close> call
  (action, version, metadata snapshot), without its timestamp.

  Each key of \<open>models\<close> holds a metadata value of its own: callers that keep a reference
  to a registered \<open>ModelMetadata\<close> object and mutate it behind the registry's back are
  outside the model.
\<close>

record ModelRegistry =
  models :: "(string \<times> ModelMetadata) list"
  files :: "(string \<times> blob) list"
  registry_json :: "(string \<times> ModelMetadata) list"
  audit :: "(string \<times> string \<times> ModelMetadata option) list"

definition model_path :: "string \<Rightarrow> string" where
  "model_path v = ''model_'' @ v @ ''.pkl''"

text \<open>\<open>_calculate_checksum\<close>, applied to the bytes read from the file.\<close>

definition calculate_checksum :: "'m registry_io \<Rightarrow> blob \<Rightarrow> string" where
  "calculate_checksum io content = sha256_hexdigest io content"

definition save_registry :: "ModelRegistry \<Rightarrow> ModelRegistry" where
  "save_registry r = r\<lparr>registry_json := models r\<rparr>"

definition log_audit :: "string \<Rightarrow> string \<Rightarrow> ModelMetadata option \<Rightarrow> ModelRegistry \<Rightarrow> ModelRegistry" where
  "log_audit action v md r = r\<lparr>audit := audit r @ [(action, v, md)]\<rparr>"

text \<open>
  \<open>register_model\<close>: writes the pickled model, computes the checksum of the file just
  written, stores the metadata under its version and returns the version.  It has no
  other exit.
\<close>

definition register_model ::
  "'m registry_io \<Rightarrow> ModelRegistry \<Rightarrow> 'm \<Rightarrow> ModelMetadata \<Rightarrow> string \<times> ModelRegistry" where
  "register_model io r model metadata =
     (let v = version metadata;
          path = model_path v;
          written = pickle_dump io model;
          r1 = r\<lparr>files := AList.update path written (files r)\<rparr>;
          metadata' = metadata\<lparr>checksum := calculate_checksum io written\<rparr>;
          r2 = save_registry (r1\<lparr>models := AList.update v metadata' (models r1)\<rparr>)
      in (v, log_audit ''register'' v (Some metadata') r2))"

text \<open>
  \<open>sorted(self.models.items(), key=created_at, reverse=True)\<close>: a stable sort in
  descending order of the key; entries with equal keys keep their order.
\<close>

fun insert_desc ::
  "(string \<times> ModelMetadata) \<Rightarrow> (string \<times> ModelMetadata) list \<Rightarrow> (string \<times> ModelMetadata) list" where
  "insert_desc x [] = [x]"
| "insert_desc x (y # ys) =
     (if created_at (snd x) \<le> created_at (snd y) then y # insert_desc x ys else x # y # ys)"

definition sorted_desc :: "(string \<times> ModelMetadata) list \<Rightarrow> (string \<times> ModelMetadata) list" where
  "sorted_desc xs = foldl (\<lambda>acc x. insert_desc x acc) [] xs"

definition get_latest_model :: "ModelRegistry \<Rightarrow> ModelMetadata option" where
  "get_latest_model r =
     (if models r = [] then None
      else (case sorted_desc (models r) of [] \<Rightarrow> None | x # _ \<Rightarrow> Some (snd x)))"

definition get_champion_model :: "ModelRegistry \<Rightarrow> ModelMetadata option" where
  "get_champion_model r =
     (case find (\<lambda>(v, metadata). champion metadata) (models r) of
        Some (v, metadata) \<Rightarrow> Some metadata
      | None \<Rightarrow> get_latest_model r)"

definition get_model_metadata :: "ModelRegistry \<Rightarrow> string \<Rightarrow> ModelMetadata option" where
  "get_model_metadata r v = map_of (models r) v"

definition list_models :: "ModelRegistry \<Rightarrow> ModelMetadata list" where
  "list_models r = map snd (models r)"

text \<open>
  \<open>load_model\<close> returns \<open>None\<close> from three places, each after its own log line, and
  otherwise what \<open>pickle.load\<close> gives.  The model keeps the places apart; \<open>load_returns\<close>
  is the value the Python caller sees.
\<close>

datatype load_fault = NoChampion | FileNotFound | ChecksumMismatch | UnpicklingError

definition load_model ::
  "'m registry_io \<Rightarrow> ModelRegistry \<Rightarrow> string option \<Rightarrow> load_fault + 'm" where
  "load_model io r vopt =
     (case (case vopt of
              None \<Rightarrow> map_option version (get_champion_model r)
            | Some v \<Rightarrow> Some v) of
        None \<Rightarrow> Inl NoChampion
      | Some v \<Rightarrow>
          (case map_of (files r) (model_path v) of
             None \<Rightarrow> Inl FileNotFound
           | Some content \<Rightarrow>
               if (case map_of (models r) v of
                     Some metadata \<Rightarrow>
                       checksum metadata \<noteq> calculate_checksum io content
                   | None \<Rightarrow> False)
               then Inl ChecksumMismatch
               else (case pickle_load io content of
                       None \<Rightarrow> Inl UnpicklingError
                     | Some model \<Rightarrow> Inr model)))"

definition load_returns :: "load_fault + 'm \<Rightarrow> 'm option" where
  "load_returns res = (case res of Inl _ \<Rightarrow> None | Inr model \<Rightarrow> Some model)"

definition promote_model :: "ModelRegistry \<Rightarrow> string \<Rightarrow> bool \<times> ModelRegistry" where
  "promote_model r v =
     (if map_of (models r) v = None then (False, r)
      else
        (let r1 = save_registry
                    (r\<lparr>models := AList.map_entry v (\<lambda>m. m\<lparr>promoted := True\<rparr>) (models r)\<rparr>)
         in (True, log_audit ''promote'' v (map_of (models r1) v) r1)))"

definition set_champion :: "ModelRegistry \<Rightarrow> string \<Rightarrow> bool \<times> ModelRegistry" where
  "set_champion r v =
     (if map_of (models r) v = None then (False, r)
      else
        (let cleared = map (\<lambda>(k, m). (k, m\<lparr>champion := False\<rparr>)) (models r);
             r1 = save_registry
                    (r\<lparr>models := AList.map_entry v (\<lambda>m. m\<lparr>champion := True\<rparr>) cleared\<rparr>)
         in (True, log_audit ''set_champion'' v (map_of (models r1) v) r1)))"

definition rollback_to_version :: "ModelRegistry \<Rightarrow> string \<Rightarrow> bool \<times> ModelRegistry" where
  "rollback_to_version r v =
     (if map_of (models r) v = None then (False, r)
      else
        (case set_champion r v of
           (True, r1) \<Rightarrow> (True, log_audit ''rollback'' v (map_of (models r1) v) r1)
         | (False, r1) \<Rightarrow> (False, r1)))"

definition delete_model :: "ModelRegistry \<Rightarrow> string \<Rightarrow> bool \<times> ModelRegistry" where
  "delete_model r v =
     (case map_of (models r) v of
        None \<Rightarrow> (False, r)
      | Some metadata \<Rightarrow>
          if champion metadata then (False, r)
          else
            (let r1 = r\<lparr>files := AList.delete (model_path v) (files r)\<rparr>;
                 r2 = save_registry (r1\<lparr>models := AList.delete v (models r1)\<rparr>)
             in (True, log_audit ''delete'' v None r2)))"

subsection \<open>Sequences of registry operations\<close>

text \<open>The records flagged champion, in table order.\<close>

definition champions :: "ModelRegistry \<Rightarrow> (string \<times> ModelMetadata) list" where
  "champions r = filter (\<lambda>(v, metadata). champion metadata) (models r)"

datatype 'm registry_op =
  Register 'm ModelMetadata | Promote string | SetChampion string | Rollback string | Delete string

fun apply_op :: "'m registry_io \<Rightarrow> ModelRegistry \<Rightarrow> 'm registry_op \<Rightarrow> ModelRegistry" where
  "apply_op io r (Register model metadata) = snd (register_model io r model metadata)"
| "apply_op io r (Promote v) = snd (promote_model r v)"
| "apply_op io r (SetChampion v) = snd (set_champion r v)"
| "apply_op io r (Rollback v) = snd (rollback_to_version r v)"
| "apply_op io r (Delete v) = snd (delete_model r v)"

fun run_ops :: "'m registry_io \<Rightarrow> ModelRegistry \<Rightarrow> 'm registry_op list \<Rightarrow> ModelRegistry" where
  "run_ops io r [] = r"
| "run_ops io r (op # ops) = run_ops io (apply_op io r op) ops"



text \<open>Every key of the table is the version of its record, as \<open>register_model\<close> stores it.\<close>

definition keys_match :: "ModelRegistry \<Rightarrow> bool" where
  "keys_match r = list_all (\<lambda>(v, metadata). version metadata = v) (models r)"

subsection \<open>Inputs of the examples\<close>

text \<open>
  The metadata of \<open>tests/test_retrain_pipeline.py\<close>, with the version and the champion flag
  left open, an empty registry, and a stand-in for the library functions: models that are
  their own pickle, and reversal in the place of SHA-256.
\<close>

definition test_metadata :: "string \<Rightarrow> bool \<Rightarrow> ModelMetadata" where
  "test_metadata v c =
     \<lparr>version = v, created_at = ''2024-01-01T00:00:00'', model_type = ''RandomForest'',
      accuracy = 95 / 100, drift_score = 0, training_samples = 100, validation_samples = 20,
      hyperparameters = [(''n_estimators'', 10)], feature_names = [''f0'', ''f1'', ''f2''],
      checksum = [], promoted = False, champion = c, notes_str = []\<rparr>"

definition empty_registry :: ModelRegistry where
  "empty_registry = \<lparr>models = [], files = [], registry_json = [], audit = []\<rparr>"

definition test_io :: "blob registry_io" where
  "test_io = \<lparr>sha256_hexdigest = rev, pickle_dump = id, pickle_load = Some\<rparr>"

section \<open>Adaptive windowing (\<open>backend/engines/adwin.py\<close>)\<close>

record ADWIN =
  delta :: real
  window :: "real list"
  total :: real
  variance :: real
  width :: int
  drift_detected :: bool
  drift_count :: int

definition ADWIN_init :: "real \<Rightarrow> ADWIN" where
  "ADWIN_init d =
     \<lparr>delta = d, window = [], total = 0, variance = 0, width = 0,
      drift_detected = False, drift_count = 0\<rparr>"

datatype adwin_error = ZeroDivisionError

text \<open>
  \<open>np.mean\<close> and \<open>np.var\<close> of a list of doubles are library calls: they add and divide
  with rounding, in an order that is numpy's own, so the mean of several copies of one
  value need not be that value.  They are parameters of the model.  The running \<open>total\<close>
  and \<open>variance\<close> of the detector, which \<open>_detect_change\<close> does not read, are kept in exact
  arithmetic.
\<close>

record numpy_fns =
  np_mean :: "real list \<Rightarrow> real"
  np_var :: "real list \<Rightarrow> real"

text \<open>
  The Hoeffding bound of a split into \<open>n0\<close> and \<open>n1\<close> elements.  \<open>4.0 / self.delta\<close> is a
  division of Python floats and raises for \<open>delta = 0\<close>.  \<open>np.log\<close> of a negative number and
  \<open>np.sqrt\<close> of a negative number are NaN (with a warning), and every comparison with NaN
  is false: \<open>None\<close> stands for NaN, since HOL's \<open>ln\<close> and \<open>sqrt\<close> are total and real-valued
  there.
\<close>

definition hoeffding_epsilon :: "real \<Rightarrow> nat \<Rightarrow> nat \<Rightarrow> adwin_error + real option" where
  "hoeffding_epsilon d n0 n1 =
     (if d = 0 then Inl ZeroDivisionError
      else
        (let m = 1 / (1 / real n0 + 1 / real n1) in
           if 4 / d < 0 then Inr None
           else
             (let a = (1 / (2 * m)) * ln (4 / d) in
                if a < 0 then Inr None else Inr (Some (sqrt a)))))"

definition exceeds :: "real \<Rightarrow> real option \<Rightarrow> bool" where
  "exceeds x eps = (case eps of None \<Rightarrow> False | Some e \<Rightarrow> x > e)"

text \<open>
  The body of the \<open>if\<close> in \<open>_detect_change\<close>: pop the \<open>i\<close> oldest elements, then recompute
  the variance from what remains.
\<close>

definition drop_oldest :: "'z numpy_fns_scheme \<Rightarrow> ADWIN \<Rightarrow> nat \<Rightarrow> ADWIN" where
  "drop_oldest np a i =
     (let a1 = a\<lparr>window := drop i (window a),
                 total := foldl (\<lambda>t removed. t - removed) (total a) (take i (window a)),
                 width := width a - int i\<rparr>
      in if width a1 > 0
         then a1\<lparr>variance := (if width a1 > 1 then np_var np (window a1) * real_of_int (width a1)
                               else 0)\<rparr>
         else a1)"

text \<open>The loop \<open>for i in range(1, n)\<close> of \<open>_detect_change\<close> over a copy of the window.\<close>

fun scan_splits ::
  "'z numpy_fns_scheme \<Rightarrow> ADWIN \<Rightarrow> real list \<Rightarrow> nat list \<Rightarrow> adwin_error + (bool \<times> ADWIN)" where
  "scan_splits np a window_list [] = Inr (False, a)"
| "scan_splits np a window_list (i # rest) =
     (let w0 = take i window_list; w1 = drop i window_list;
          n0 = length w0; n1 = length w1
      in if n0 < 5 \<or> n1 < 5 then scan_splits np a window_list rest
         else
           (case hoeffding_epsilon (delta a) n0 n1 of
              Inl e \<Rightarrow> Inl e
            | Inr epsilon \<Rightarrow>
                if exceeds \<bar>np_mean np w0 - np_mean np w1\<bar> epsilon
                then Inr (True, drop_oldest np a i)
                else scan_splits np a window_list rest))"

definition detect_change :: "'z numpy_fns_scheme \<Rightarrow> ADWIN \<Rightarrow> adwin_error + (bool \<times> ADWIN)" where
  "detect_change np a = scan_splits np a (window a) [1 ..< length (window a)]"

definition add_element ::
  "'z numpy_fns_scheme \<Rightarrow> ADWIN \<Rightarrow> real \<Rightarrow> adwin_error + (bool \<times> ADWIN)" where
  "add_element np a val =
     (let a1 = a\<lparr>window := window a @ [val], width := width a + 1\<rparr> in
      case (if width a1 = 1 then Inr (a1\<lparr>total := val, variance := 0\<rparr>)
            else if width a1 - 1 = 0 \<or> width a1 = 0 then Inl ZeroDivisionError
            else
              (let old_mean = total a1 / real_of_int (width a1 - 1);
                   new_total = total a1 + val;
                   new_mean = new_total / real_of_int (width a1)
               in Inr (a1\<lparr>total := new_total,
                          variance := variance a1 + (val - old_mean) * (val - new_mean)\<rparr>))) of
        Inl e \<Rightarrow> Inl e
      | Inr a2 \<Rightarrow>
          (let a3 = a2\<lparr>drift_detected := False\<rparr> in
           if width a3 > 1 then
             (case detect_change np a3 of
                Inl e \<Rightarrow> Inl e
              | Inr (True, a4) \<Rightarrow>
                  Inr (True, a4\<lparr>drift_detected := True, drift_count := drift_count a4 + 1\<rparr>)
              | Inr (False, a4) \<Rightarrow> Inr (False, a4))
           else Inr (False, a3)))"


text \<open>The detector after \<open>k\<close> observations of the same value \<open>c\<close>, none of them a drift.\<close>

definition constant_window :: "real \<Rightarrow> real \<Rightarrow> nat \<Rightarrow> ADWIN" where
  "constant_window d c k =
     \<lparr>delta = d, window = replicate k c, total = real k * c, variance = 0, width = int k,
      drift_detected = False, drift_count = 0\<rparr>"

subsection \<open>Doubles, for the examples\<close>





text \<open>
  The mean and the variance in exact arithmetic: what numpy returns wherever no addition
  and no division rounds, as on a single value, on a zero and a value, on runs of
  \<open>0.0\<close>, \<open>1.0\<close> or \<open>2.0\<close>, and on the three scores 62.5, 0 and 125.
\<close>

definition exact_numpy :: numpy_fns where
  "exact_numpy =
     \<lparr>np_mean = (\<lambda>xs. sum_list xs / real (length xs)),
      np_var = (\<lambda>xs. sum_list (map (\<lambda>x. (x - sum_list xs / real (length xs)) ^ 2) xs)
                       / real (length xs))\<rparr>"

section \<open>Drift engine (\<open>backend/engines/drift_detector.py\<close>)\<close>

text \<open>
  The statistical tests of \<open>stat_tests.py\<close> are calls into numpy histograms and scipy; the
  engine only uses the numbers they return.  They are parameters of the model, as total
  functions of the two samples; what they raise on degenerate samples is outside it.
  \<open>ks_2samp\<close> is \<open>scipy.stats.ks_2samp\<close>.  The record also carries numpy's mean and
  variance, which the engine and its detectors call.
\<close>

record stat_tests = numpy_fns +
  population_stability_index :: "real list \<Rightarrow> real list \<Rightarrow> real"
  ks_2samp :: "real list \<Rightarrow> real list \<Rightarrow> real \<times> real"
  kl_divergence :: "real list \<Rightarrow> real list \<Rightarrow> real"

definition kolmogorov_smirnov_test ::
  "stat_tests \<Rightarrow> real list \<Rightarrow> real list \<Rightarrow> real \<times> real \<times> bool" where
  "kolmogorov_smirnov_test t reference current =
     (let alpha = 5 / 100; (statistic, p_value) = ks_2samp t reference current
      in (statistic, p_value, p_value < alpha))"

text \<open>The entries of \<open>details\<close>; the three \<open>psi\<close> and \<open>drift_score\<close> keys are told apart.\<close>

record feature_entry =
  feature_index :: nat
  psi :: real
  ks_statistic :: real
  ks_pvalue :: real
  kl_div :: real
  adwin_drift :: bool
  feature_drift_score :: real

record prediction_entry =
  prediction_psi :: real
  prediction_ks_statistic :: real
  prediction_drift_score :: real

record concept_entry =
  concept_psi :: real
  concept_drift_score :: real

record drift_details =
  feature_drift :: "feature_entry list"
  prediction_drift :: "prediction_entry option"
  concept_drift :: "concept_entry option"

text \<open>
  \<open>details\<close> of a result: \<open>{"error": ...}\<close> without a reference,
  \<open>{"current_samples": n}\<close> with fewer than 30 samples, the per-signal entries otherwise.
  The two early results have no \<open>recommended_action\<close>; the timestamp is left out.
\<close>

datatype details = ErrorDetails string | SampleCount nat | SignalDetails drift_details

record drift_result =
  result_drift_score :: real
  drift_type :: string
  severity :: string
  affected_features :: "nat list"
  result_details :: details
  recommended_action :: "string option"

text \<open>
  A matrix is the list of its rows.  \<open>reference_features\<close> is a two-dimensional array and
  \<open>np.array(self.current_features)\<close> makes one of the window.
\<close>

record DriftDetector =
  n_features :: nat
  reference_features :: "real list list option"
  reference_labels :: "real list option"
  reference_predictions :: "real list option"
  current_features :: "real list list"
  current_labels :: "real list"
  current_predictions :: "real list"
  adwin_detectors :: "ADWIN list"
  window_size :: nat
  drift_threshold :: real
  drift_history :: "drift_result list"

datatype drift_error = IndexError | ValueError

definition ncols :: "real list list \<Rightarrow> nat" where
  "ncols rows = (case rows of [] \<Rightarrow> 0 | r # _ \<Rightarrow> length r)"

definition rectangular :: "real list list \<Rightarrow> bool" where
  "rectangular rows = list_all (\<lambda>r. length r = ncols rows) rows"

text \<open>\<open>matrix[:, i]\<close>: the column, or \<open>IndexError\<close> beyond the last one.\<close>

definition column :: "nat \<Rightarrow> real list list \<Rightarrow> drift_error + real list" where
  "column i rows = (if i < ncols rows then Inr (map (\<lambda>r. r ! i) rows) else Inl IndexError)"

definition classify_drift_type :: "drift_details \<Rightarrow> nat list \<Rightarrow> string" where
  "classify_drift_type det affected =
     (if length affected > 0 then
        (if (case concept_drift det of Some c \<Rightarrow> concept_psi c > 2 / 10 | None \<Rightarrow> False)
         then ''concept_drift''
         else if (case prediction_drift det of
                    Some p \<Rightarrow> prediction_psi p > 2 / 10 | None \<Rightarrow> False)
         then ''prediction_drift''
         else ''data_drift'')
      else ''none'')"

definition classify_severity :: "real \<Rightarrow> string" where
  "classify_severity score =
     (if score \<ge> 70 then ''high''
      else if score \<ge> 40 then ''moderate''
      else if score \<ge> 20 then ''low''
      else ''none'')"

definition get_recommendation :: "real \<Rightarrow> string \<Rightarrow> string" where
  "get_recommendation score sev =
     (if sev = ''high'' then ''URGENT: Trigger immediate retraining''
      else if sev = ''moderate'' then ''Schedule retraining within 24 hours''
      else if sev = ''low'' then ''Monitor closely, consider retraining if persists''
      else ''No action required'')"

text \<open>
  The loop over the features.  The accumulator is \<open>drift_scores\<close>, \<open>affected_features\<close>
  and \<open>feature_drifts\<close>; the score of a feature joins \<open>drift_scores\<close> inside the \<open>if\<close> that
  also records the feature as affected.
\<close>

fun feature_loop ::
  "stat_tests \<Rightarrow> DriftDetector \<Rightarrow> real list list \<Rightarrow> real list list \<Rightarrow> nat list \<Rightarrow>
   real list \<times> nat list \<times> feature_entry list \<Rightarrow>
   drift_error + (real list \<times> nat list \<times> feature_entry list)" where
  "feature_loop t d ref cur [] acc = Inr acc"
| "feature_loop t d ref cur (i # rest) (drift_scores, affected, feature_drifts) =
     (case column i ref of
        Inl e \<Rightarrow> Inl e
      | Inr ref_feature \<Rightarrow>
     (case column i cur of
        Inl e \<Rightarrow> Inl e
      | Inr curr_feature \<Rightarrow>
          (let p = population_stability_index t ref_feature curr_feature;
               (ks_stat, ks_pval, ks_drift) = kolmogorov_smirnov_test t ref_feature curr_feature;
               kl = kl_divergence t ref_feature curr_feature
           in if i < length (adwin_detectors d) then
                (let adwin = drift_detected (adwin_detectors d ! i);
                     feature_score = (p / (2 / 10)) * 25 + ks_stat * 25 + min kl 1 * 25
                                     + (if adwin then 1 else 0) * 25;
                     entry = \<lparr>feature_index = i, psi = p, ks_statistic = ks_stat,
                              ks_pvalue = ks_pval, kl_div = kl, adwin_drift = adwin,
                              feature_drift_score = feature_score\<rparr>
                 in if p > drift_threshold d \<or> ks_drift \<or> adwin
                    then feature_loop t d ref cur rest
                           (drift_scores @ [feature_score], affected @ [i],
                            feature_drifts @ [entry])
                    else feature_loop t d ref cur rest
                           (drift_scores, affected, feature_drifts @ [entry]))
              else Inl IndexError)))"

definition clamp_score :: "real \<Rightarrow> real" where
  "clamp_score x = min 100 (max 0 x)"

definition mean_or_zero :: "'z numpy_fns_scheme \<Rightarrow> real list \<Rightarrow> real" where
  "mean_or_zero np drift_scores = (if drift_scores = [] then 0 else np_mean np drift_scores)"

definition detect_drift ::
  "stat_tests \<Rightarrow> DriftDetector \<Rightarrow> drift_error + (drift_result \<times> DriftDetector)" where
  "detect_drift t d =
     (case reference_features d of
        None \<Rightarrow>
          Inr (\<lparr>result_drift_score = 0, drift_type = ''none'', severity = ''none'',
                affected_features = [],
                result_details = ErrorDetails ''No reference distribution set'',
                recommended_action = None\<rparr>, d)
      | Some ref \<Rightarrow>
          if length (current_features d) < 30 then
            Inr (\<lparr>result_drift_score = 0, drift_type = ''none'',
                  severity = ''insufficient_data'', affected_features = [],
                  result_details = SampleCount (length (current_features d)),
                  recommended_action = None\<rparr>, d)
          else if \<not> rectangular (current_features d) \<or> \<not> rectangular ref then Inl ValueError
          else
            (case feature_loop t d ref (current_features d) [0 ..< n_features d] ([], [], []) of
               Inl e \<Rightarrow> Inl e
             | Inr (scores1, affected, feature_drifts) \<Rightarrow>
                 (let pred =
                        (case reference_predictions d of
                           Some ref_pred \<Rightarrow>
                             if length (current_predictions d) > 0 then
                               (let psi_pred = population_stability_index t ref_pred
                                                 (current_predictions d);
                                    (ks_stat_pred, _, _) = kolmogorov_smirnov_test t ref_pred
                                                 (current_predictions d)
                                in Some \<lparr>prediction_psi = psi_pred,
                                         prediction_ks_statistic = ks_stat_pred,
                                         prediction_drift_score =
                                           (psi_pred / (2 / 10)) * 50 + ks_stat_pred * 50\<rparr>)
                             else None
                         | None \<Rightarrow> None);
                      scores2 = (case pred of
                                   Some p \<Rightarrow> scores1 @ [prediction_drift_score p]
                                 | None \<Rightarrow> scores1);
                      conc =
                        (case reference_labels d of
                           Some ref_labels \<Rightarrow>
                             if length (current_labels d) > 0 then
                               (let psi_label = population_stability_index t ref_labels
                                                  (current_labels d)
                                in Some \<lparr>concept_psi = psi_label,
                                         concept_drift_score = (psi_label / (2 / 10)) * 100\<rparr>)
                             else None
                         | None \<Rightarrow> None);
                      scores3 = (case conc of
                                   Some c \<Rightarrow> scores2 @ [concept_drift_score c]
                                 | None \<Rightarrow> scores2);
                      det = \<lparr>feature_drift = feature_drifts, prediction_drift = pred,
                             concept_drift = conc\<rparr>;
                      overall = clamp_score (mean_or_zero t scores3);
                      sev = classify_severity overall;
                      result = \<lparr>result_drift_score = overall,
                                drift_type = classify_drift_type det affected,
                                severity = sev, affected_features = affected,
                                result_details = SignalDetails det,
                                recommended_action = Some (get_recommendation overall sev)\<rparr>
                  in Inr (result, d\<lparr>drift_history := drift_history d @ [result]\<rparr>))))"

subsection \<open>Feeding the engine\<close>

definition DriftDetector_init :: "nat \<Rightarrow> DriftDetector" where
  "DriftDetector_init n =
     \<lparr>n_features = n, reference_features = None, reference_labels = None,
      reference_predictions = None, current_features = [], current_labels = [],
      current_predictions = [], adwin_detectors = replicate (n + 1) (ADWIN_init (2 / 1000)),
      window_size = 100, drift_threshold = 2 / 10, drift_history = []\<rparr>"

definition set_reference ::
  "DriftDetector \<Rightarrow> real list list \<Rightarrow> real list option \<Rightarrow> real list option \<Rightarrow> DriftDetector" where
  "set_reference d features labels predictions =
     d\<lparr>reference_features := Some features, reference_labels := labels,
       reference_predictions := predictions\<rparr>"

datatype sample_error = DetectorIndexError | DetectorZeroDivision

text \<open>\<open>for i, feature_val in enumerate(features): self.adwin_detectors[i].add_element(...)\<close>\<close>

fun feed_features ::
  "'z numpy_fns_scheme \<Rightarrow> ADWIN list \<Rightarrow> real list \<Rightarrow> nat \<Rightarrow> sample_error + ADWIN list" where
  "feed_features np dets [] i = Inr dets"
| "feed_features np dets (feature_val # rest) i =
     (if i < length dets then
        (case add_element np (dets ! i) feature_val of
           Inl e \<Rightarrow> Inl DetectorZeroDivision
         | Inr (_, a) \<Rightarrow> feed_features np (dets[i := a]) rest (Suc i))
      else Inl DetectorIndexError)"

definition add_sample ::
  "'z numpy_fns_scheme \<Rightarrow> DriftDetector \<Rightarrow> real list \<Rightarrow> real option \<Rightarrow> real option \<Rightarrow> real \<Rightarrow>
   sample_error + DriftDetector" where
  "add_sample np d features label prediction error =
     (let d1 = d\<lparr>current_features := current_features d @ [features],
                 current_labels := (case label of Some l \<Rightarrow> current_labels d @ [l]
                                    | None \<Rightarrow> current_labels d),
                 current_predictions := (case prediction of
                                           Some p \<Rightarrow> current_predictions d @ [p]
                                         | None \<Rightarrow> current_predictions d)\<rparr>
      in case feed_features np (adwin_detectors d1) features 0 of
           Inl e \<Rightarrow> Inl e
         | Inr dets \<Rightarrow>
             if dets = [] then Inl DetectorIndexError
             else
               (case add_element np (last dets) error of
                  Inl e \<Rightarrow> Inl DetectorZeroDivision
                | Inr (_, a) \<Rightarrow>
                    (let d2 = d1\<lparr>adwin_detectors := dets[length dets - 1 := a]\<rparr>
                     in if length (current_features d2) > window_size d2
                        then Inr (d2\<lparr>current_features := tl (current_features d2),
                                     current_labels :=
                                       (if current_labels d2 \<noteq> [] then tl (current_labels d2)
                                        else current_labels d2),
                                     current_predictions :=
                                       (if current_predictions d2 \<noteq> []
                                        then tl (current_predictions d2)
                                        else current_predictions d2)\<rparr>)
                        else Inr d2)))"

text \<open>Labelled samples of one constant feature, added one after the other with error 0.\<close>

fun add_labelled ::
  "'z numpy_fns_scheme \<Rightarrow> DriftDetector \<Rightarrow> real \<Rightarrow> real list \<Rightarrow> sample_error + DriftDetector" where
  "add_labelled np d x [] = Inr d"
| "add_labelled np d x (l # ls) =
     (case add_sample np d [x] (Some l) None 0 of
        Inl e \<Rightarrow> Inl e
      | Inr d' \<Rightarrow> add_labelled np d' x ls)"

text \<open>Samples added one after the other: features, label, prediction and error of each.\<close>

fun add_samples ::
  "'z numpy_fns_scheme \<Rightarrow> DriftDetector \<Rightarrow>
   (real list \<times> real option \<times> real option \<times> real) list \<Rightarrow> sample_error + DriftDetector" where
  "add_samples np d [] = Inr d"
| "add_samples np d ((features, label, prediction, error) # rest) =
     (case add_sample np d features label prediction error of
        Inl e \<Rightarrow> Inl e
      | Inr d' \<Rightarrow> add_samples np d' rest)"

subsection \<open>The signals of a full run, one by one\<close>

text \<open>
  What one pass of the loop body computes for feature \<open>i\<close>, a column of both matrices
  with a detector of its own: the entry appended to \<open>feature_drifts\<close>, and the condition
  of the \<open>if\<close> under which the feature is recorded as affected.
\<close>

definition feature_signal ::
  "stat_tests \<Rightarrow> DriftDetector \<Rightarrow> real list list \<Rightarrow> nat \<Rightarrow> feature_entry" where
  "feature_signal t d ref i =
     (let ref_feature = map (\<lambda>r. r ! i) ref;
          curr_feature = map (\<lambda>r. r ! i) (current_features d);
          p = population_stability_index t ref_feature curr_feature;
          (ks_stat, ks_pval, ks_drift) = kolmogorov_smirnov_test t ref_feature curr_feature;
          kl = kl_divergence t ref_feature curr_feature;
          adwin = drift_detected (adwin_detectors d ! i)
      in \<lparr>feature_index = i, psi = p, ks_statistic = ks_stat, ks_pvalue = ks_pval,
          kl_div = kl, adwin_drift = adwin,
          feature_drift_score = (p / (2 / 10)) * 25 + ks_stat * 25 + min kl 1 * 25
                                + (if adwin then 1 else 0) * 25\<rparr>)"

definition feature_is_affected ::
  "stat_tests \<Rightarrow> DriftDetector \<Rightarrow> real list list \<Rightarrow> nat \<Rightarrow> bool" where
  "feature_is_affected t d ref i =
     (let ref_feature = map (\<lambda>r. r ! i) ref;
          curr_feature = map (\<lambda>r. r ! i) (current_features d);
          (ks_stat, ks_pval, ks_drift) = kolmogorov_smirnov_test t ref_feature curr_feature
      in population_stability_index t ref_feature curr_feature > drift_threshold d
         \<or> ks_drift \<or> drift_detected (adwin_detectors d ! i))"

text \<open>
  The entries of the prediction stream and of the label stream, each computed only when
  its reference was given and the current window holds a value of it.
\<close>

definition prediction_signal :: "stat_tests \<Rightarrow> DriftDetector \<Rightarrow> prediction_entry option" where
  "prediction_signal t d =
     (case reference_predictions d of
        Some ref_pred \<Rightarrow>
          if length (current_predictions d) > 0 then
            (let psi_pred = population_stability_index t ref_pred (current_predictions d);
                 (ks_stat_pred, _, _) = kolmogorov_smirnov_test t ref_pred (current_predictions d)
             in Some \<lparr>prediction_psi = psi_pred, prediction_ks_statistic = ks_stat_pred,
                      prediction_drift_score = (psi_pred / (2 / 10)) * 50 + ks_stat_pred * 50\<rparr>)
          else None
      | None \<Rightarrow> None)"

definition concept_signal :: "stat_tests \<Rightarrow> DriftDetector \<Rightarrow> concept_entry option" where
  "concept_signal t d =
     (case reference_labels d of
        Some ref_labels \<Rightarrow>
          if length (current_labels d) > 0 then
            (let psi_label = population_stability_index t ref_labels (current_labels d)
             in Some \<lparr>concept_psi = psi_label,
                      concept_drift_score = (psi_label / (2 / 10)) * 100\<rparr>)
          else None
      | None \<Rightarrow> None)"

text \<open>
  The scores that enter the mean: those of the affected features in the order of the
  features, then the prediction score, then the concept score.
\<close>

definition contributing_scores ::
  "stat_tests \<Rightarrow> DriftDetector \<Rightarrow> real list list \<Rightarrow> real list" where
  "contributing_scores t d ref =
     map (\<lambda>i. feature_drift_score (feature_signal t d ref i))
       (filter (feature_is_affected t d ref) [0 ..< n_features d])
     @ (case prediction_signal t d of Some p \<Rightarrow> [prediction_drift_score p] | None \<Rightarrow> [])
     @ (case concept_signal t d of Some c \<Rightarrow> [concept_drift_score c] | None \<Rightarrow> [])"

subsection \<open>The wording of the specification, for comparison\<close>

text \<open>
  The overall score as the specification words it: the mean of the score of every feature,
  of the prediction score when there is one and of the concept score when there is one,
  clamped to \<open>[0, 100]\<close>.
\<close>

definition spec_overall_score :: "'z numpy_fns_scheme \<Rightarrow> drift_details \<Rightarrow> real" where
  "spec_overall_score np det =
     clamp_score (mean_or_zero np
       (map feature_drift_score (feature_drift det)
        @ (case prediction_drift det of Some p \<Rightarrow> [prediction_drift_score p] | None \<Rightarrow> [])
        @ (case concept_drift det of Some c \<Rightarrow> [concept_drift_score c] | None \<Rightarrow> [])))"

text \<open>
  The drift type as the specification words it: concept drift first, then prediction
  drift, then data drift when a feature is affected, else none.
\<close>

definition spec_drift_type :: "drift_details \<Rightarrow> nat list \<Rightarrow> string" where
  "spec_drift_type det affected =
     (if (case concept_drift det of Some c \<Rightarrow> concept_psi c > 2 / 10 | None \<Rightarrow> False)
      then ''concept_drift''
      else if (case prediction_drift det of Some p \<Rightarrow> prediction_psi p > 2 / 10 | None \<Rightarrow> False)
      then ''prediction_drift''
      else if affected \<noteq> [] then ''data_drift''
      else ''none'')"

subsection \<open>Example detectors\<close>

text \<open>
  Stand-ins for the tests: no shift between two equal samples (PSI 0, KS statistic 0 with
  p-value 1, KL 0, as the real tests give), and a given PSI between different ones; the
  mean and the variance are those of \<open>exact_numpy\<close>.
\<close>

definition sample_tests :: "real \<Rightarrow> stat_tests" where
  "sample_tests shift =
     \<lparr>np_mean = np_mean exact_numpy, np_var = np_var exact_numpy,
      population_stability_index = (\<lambda>reference current. if reference = current then 0 else shift),
      ks_2samp = (\<lambda>reference current. if reference = current then (0, 1) else (1, 0)),
      kl_divergence = (\<lambda>reference current. if reference = current then 0 else shift)\<rparr>"

text \<open>
  The engine for one feature after \<open>set_reference\<close> with thirty samples of value 2 and
  labels half 0 and half 1, and after \<open>n\<close> samples of the same feature value 2 with the
  given labels and error 0: both detectors have seen a constant stream.
\<close>

definition steady_state :: "nat \<Rightarrow> real list \<Rightarrow> DriftDetector" where
  "steady_state n labels_now =
     \<lparr>n_features = 1,
      reference_features = Some (replicate 30 [2]),
      reference_labels = Some (replicate 15 0 @ replicate 15 1),
      reference_predictions = None,
      current_features = replicate n [2],
      current_labels = labels_now, current_predictions = [],
      adwin_detectors = [constant_window (2 / 1000) 2 n, constant_window (2 / 1000) 0 n],
      window_size = 100, drift_threshold = 2 / 10, drift_history = []\<rparr>"

definition steady_detector :: "real list \<Rightarrow> DriftDetector" where
  "steady_detector labels_now = steady_state 30 labels_now"

text \<open>
  An engine for two features with predictions: after \<open>set_reference\<close> with thirty samples
  \<open>[2, 5]\<close>, labels half 0 and half 1 and predictions 1, and after \<open>n\<close> samples \<open>[2, 2]\<close>
  with label 1, prediction 1 and error 0.  The first feature is as in the reference, the
  second has moved.
\<close>

definition paired_state :: "nat \<Rightarrow> DriftDetector" where
  "paired_state n =
     \<lparr>n_features = 2,
      reference_features = Some (replicate 30 [2, 5]),
      reference_labels = Some (replicate 15 0 @ replicate 15 1),
      reference_predictions = Some (replicate 30 1),
      current_features = replicate n [2, 2],
      current_labels = replicate n 1, current_predictions = replicate n 1,
      adwin_detectors = [constant_window (2 / 1000) 2 n, constant_window (2 / 1000) 2 n,
                         constant_window (2 / 1000) 0 n],
      window_size = 100, drift_threshold = 2 / 10, drift_history = []\<rparr>"

section \<open>Retraining engine (\<open>backend/engines/retrain_engine.py\<close>)\<close>

subsection \<open>Python values on their way to JSON\<close>

text \<open>
  The validation result is a dictionary of Python and numpy values that the engine hands
  to \<open>json.dumps\<close>.  A comparison of a numpy scalar with a float is a \<open>numpy.bool_\<close>, not a
  \<open>bool\<close>; \<open>json.dumps\<close> encodes \<open>bool\<close>, \<open>float\<close>, \<open>str\<close>, lists and dictionaries, and
  raises \<open>TypeError\<close> on a \<open>numpy.bool_\<close>.
\<close>

datatype py_value =
    PyBool bool
  | NumpyBool bool
  | PyFloat real
  | PyStr string
  | PyList "py_value list"
  | PyDict "(string \<times> py_value) list"

primrec json_serializable :: "py_value \<Rightarrow> bool" where
  "json_serializable (PyBool b) = True"
| "json_serializable (NumpyBool b) = False"
| "json_serializable (PyFloat x) = True"
| "json_serializable (PyStr s) = True"
| "json_serializable (PyList xs) = list_all id (map json_serializable xs)"
| "json_serializable (PyDict kvs) = list_all snd (map (map_prod id json_serializable) kvs)"

text \<open>The truth value of a Python object, as \<open>not\<close>, \<open>and\<close>, \<open>or\<close> and \<open>if\<close> take it.\<close>

fun truthy :: "py_value \<Rightarrow> bool" where
  "truthy (PyBool b) = b"
| "truthy (NumpyBool b) = b"
| "truthy (PyFloat x) = (x \<noteq> 0)"
| "truthy (PyStr s) = (s \<noteq> [])"
| "truthy (PyList xs) = (xs \<noteq> [])"
| "truthy (PyDict kvs) = (kvs \<noteq> [])"

definition py_and :: "py_value \<Rightarrow> py_value \<Rightarrow> py_value" where
  "py_and a b = (if truthy a then b else a)"

definition py_or :: "py_value \<Rightarrow> py_value \<Rightarrow> py_value" where
  "py_or a b = (if truthy a then a else b)"

text \<open>\<open>d[key]\<close>: \<open>None\<close> stands for the \<open>KeyError\<close> (a \<open>TypeError\<close> on a value without keys).\<close>

fun py_get :: "string \<Rightarrow> py_value \<Rightarrow> py_value option" where
  "py_get key (PyDict kvs) = map_of kvs key"
| "py_get key _ = None"

text \<open>
  A number as scikit-learn and numpy return it: a Python \<open>float\<close> or a \<open>numpy.float64\<close>.
  Its comparison with a threshold (a Python float) is a \<open>bool\<close> for the first and a
  \<open>numpy.bool_\<close> for the second.
\<close>

datatype py_number = Float real | Float64 real

fun number_value :: "py_number \<Rightarrow> real" where
  "number_value (Float x) = x"
| "number_value (Float64 x) = x"

fun compare_ge :: "py_number \<Rightarrow> real \<Rightarrow> py_value" where
  "compare_ge (Float x) t = PyBool (x \<ge> t)"
| "compare_ge (Float64 x) t = NumpyBool (x \<ge> t)"

fun compare_gt :: "py_number \<Rightarrow> real \<Rightarrow> py_value" where
  "compare_gt (Float x) t = PyBool (x > t)"
| "compare_gt (Float64 x) t = NumpyBool (x > t)"

fun compare_lt :: "py_number \<Rightarrow> real \<Rightarrow> py_value" where
  "compare_lt (Float x) t = PyBool (x < t)"
| "compare_lt (Float64 x) t = NumpyBool (x < t)"

subsection \<open>The validator (\<open>backend/engines/model_validator.py\<close>)\<close>

text \<open>
  What the four checks measure on a model and the validation set, through scikit-learn
  and numpy: the four metrics (a \<open>float\<close> or a \<open>numpy.float64\<close>, as the installed
  scikit-learn returns them), the feature importances and \<open>np.max\<close> of them, the
  distribution of the predicted classes and \<open>np.min\<close> of it, and the share of predictions
  that survive the perturbation (\<open>np.mean\<close> of a boolean array).  The last three are numpy
  scalars in every installation.
\<close>

record validation_measures =
  val_accuracy :: py_number
  val_precision :: py_number
  val_recall :: py_number
  val_f1 :: py_number
  importances :: "real list"
  max_importance :: real
  pred_distribution :: "real list"
  min_class_proportion :: real
  stability :: real

definition thresholds :: "(string \<times> real) list" where
  "thresholds =
     [(''min_accuracy'', 70 / 100), (''min_precision'', 65 / 100), (''min_recall'', 65 / 100),
      (''min_f1'', 65 / 100), (''max_feature_importance_concentration'', 8 / 10)]"

definition check_performance :: "validation_measures \<Rightarrow> py_value" where
  "check_performance ms =
     (let passed =
            py_and (compare_ge (val_accuracy ms) (70 / 100))
              (py_and (compare_ge (val_precision ms) (65 / 100))
                 (py_and (compare_ge (val_recall ms) (65 / 100))
                    (compare_ge (val_f1 ms) (65 / 100))))
      in PyDict
           [(''passed'', passed),
            (''metrics'',
               PyDict [(''accuracy'', PyFloat (number_value (val_accuracy ms))),
                       (''precision'', PyFloat (number_value (val_precision ms))),
                       (''recall'', PyFloat (number_value (val_recall ms))),
                       (''f1_score'', PyFloat (number_value (val_f1 ms)))]),
            (''thresholds'', PyDict (map (\<lambda>(k, t). (k, PyFloat t)) thresholds))])"

definition check_explainability :: "validation_measures \<Rightarrow> string list \<Rightarrow> py_value" where
  "check_explainability ms names =
     (let concentration_ok = compare_lt (Float64 (max_importance ms)) (8 / 10)
      in PyDict
           [(''passed'', concentration_ok),
            (''feature_importances'',
               PyDict (zip names (map PyFloat (importances ms)))),
            (''max_importance'', PyFloat (max_importance ms)),
            (''threshold'', PyFloat (8 / 10)),
            (''explanation'',
               PyStr (if truthy concentration_ok
                      then ''Feature importance distribution is balanced''
                      else ''Single feature has too much influence''))])"

text \<open>The decimal digits of a number, for the keys \<open>class_0\<close>, \<open>class_1\<close>, ...\<close>

fun str_nat :: "nat \<Rightarrow> string" where
  "str_nat n =
     (if n < 10 then [char_of (48 + n)] else str_nat (n div 10) @ [char_of (48 + n mod 10)])"

definition check_fairness :: "validation_measures \<Rightarrow> py_value" where
  "check_fairness ms =
     (let passed =
            py_or (compare_gt (Float64 (min_class_proportion ms)) (10 / 100))
              (py_and (PyBool (length (pred_distribution ms) = 2))
                 (compare_gt (Float64 (min_class_proportion ms)) (5 / 100)))
      in PyDict
           [(''passed'', passed),
            (''prediction_distribution'',
               PyDict (map (\<lambda>(i, prop). (''class_'' @ str_nat i, PyFloat prop))
                         (zip [0 ..< length (pred_distribution ms)] (pred_distribution ms)))),
            (''min_class_proportion'', PyFloat (min_class_proportion ms)),
            (''explanation'',
               PyStr (if truthy passed then ''Prediction distribution is balanced''
                      else ''Predictions are too imbalanced''))])"

definition check_stability :: "validation_measures \<Rightarrow> py_value" where
  "check_stability ms =
     (let passed = compare_ge (Float64 (stability ms)) (90 / 100)
      in PyDict
           [(''passed'', passed),
            (''stability_score'', PyFloat (stability ms)),
            (''threshold'', PyFloat (90 / 100)),
            (''explanation'',
               PyStr (if truthy passed
                      then ''Model predictions are stable under small perturbations''
                      else ''Model is too sensitive to input noise''))])"

text \<open>
  \<open>ModelValidator.validate_model\<close>: all four checks run, each is stored under \<open>checks\<close>
  as it is, and \<open>passed\<close> starts as \<open>True\<close> and is set to \<open>False\<close> by a failing check.
\<close>

definition check_passed :: "py_value \<Rightarrow> bool" where
  "check_passed c = (case py_get ''passed'' c of Some p \<Rightarrow> truthy p | None \<Rightarrow> False)"

definition ModelValidator_validate_model :: "validation_measures \<Rightarrow> string list \<Rightarrow> py_value" where
  "ModelValidator_validate_model ms names =
     (let performance_check = check_performance ms;
          explainability_check = check_explainability ms names;
          fairness_check = check_fairness ms;
          stability_check = check_stability ms;
          checks = [(''performance'', performance_check),
                    (''explainability'', explainability_check),
                    (''fairness'', fairness_check),
                    (''stability'', stability_check)]
      in PyDict
           [(''passed'', PyBool (list_all (\<lambda>(name, c). check_passed c) checks)),
            (''checks'', PyDict checks),
            (''failures'',
               PyList (map (\<lambda>(name, c). PyStr name)
                         (filter (\<lambda>(name, c). \<not> check_passed c) checks)))])"

subsection \<open>The engine\<close>

text \<open>
  What one retraining run takes from outside the engine: the model the random forest fit
  gives and its accuracy on the held-out split, the clock (the version is
  \<open>v%Y%m%d_%H%M%S\<close> of the time of registration, \<open>created_at\<close> its ISO form), and
  \<open>self.validator.validate_model\<close> as a function of the model: the validation data is
  generated inside the run, and the repository's test replaces the method by one that
  returns a fixed dictionary.
\<close>

record 'm retrain_env =
  trained_model :: 'm
  trained_accuracy :: real
  clock_version :: string
  clock_created_at :: string
  validate_model :: "'m \<Rightarrow> py_value"

record retrain_event =
  event_reason :: string
  event_drift_score :: real
  old_version :: string
  new_version :: string
  old_accuracy :: real
  new_accuracy :: real
  improvement :: real
  event_promoted :: bool
  event_validation :: py_value

text \<open>
  The engine: its registry, the two configuration values the run reads, its history, and
  the lines of \<open>logs/audit/retraining_events.jsonl\<close>.
\<close>

record RetrainEngine =
  model_registry :: ModelRegistry
  min_training_samples :: nat
  improvement_margin :: real
  retrain_history :: "retrain_event list"
  retrain_log :: "retrain_event list"

text \<open>
  The dictionary \<open>trigger_retraining\<close> returns; a key that a return statement does not
  set is \<open>None\<close>.  \<open>validation\<close> is reduced to its \<open>passed\<close> entry, the duration is left out.
\<close>

record retrain_result =
  success :: bool
  result_version :: "string option"
  result_promoted :: "bool option"
  result_reason :: "string option"
  result_samples :: "nat option"
  result_accuracy :: "real option"
  result_message :: "string option"
  result_improvement :: "real option"
  result_validation :: "bool option"

text \<open>
  The exceptions that leave \<open>trigger_retraining\<close>.  The \<open>TypeError\<close> of \<open>json.dumps\<close> carries
  the engine as it is when the exception is raised.
\<close>

datatype retrain_error = UnpicklingFailed | AttributeError | KeyError | TypeError RetrainEngine

text \<open>
  \<open>_save_retrain_log\<close>: one line \<open>json.dumps(event)\<close> appended to the log file.  The other
  entries of an event are strings, floats, a \<open>bool\<close> and the duration, a float.
\<close>

definition save_retrain_log :: "RetrainEngine \<Rightarrow> retrain_event \<Rightarrow> retrain_error + RetrainEngine" where
  "save_retrain_log eng event =
     (if json_serializable (event_validation event)
      then Inr (eng\<lparr>retrain_log := retrain_log eng @ [event]\<rparr>)
      else Inl (TypeError eng))"

text \<open>
  \<open>_train_and_register\<close> on a data set of \<open>n\<close> rows with three features.  The split keeps
  a fifth of the rows for validation; the metadata is built with the defaults
  \<open>promoted=False\<close>, \<open>champion=False\<close>.
\<close>

definition train_and_register ::
  "'m registry_io \<Rightarrow> 'm retrain_env \<Rightarrow> ModelRegistry \<Rightarrow> nat \<Rightarrow> string \<Rightarrow> real \<Rightarrow>
   string \<times> ModelRegistry" where
  "train_and_register io env r n reason score =
     (let v = clock_version env;
          metadata =
            \<lparr>version = v, created_at = clock_created_at env,
             model_type = ''RandomForestClassifier'', accuracy = trained_accuracy env,
             drift_score = score, training_samples = n - (n + 4) div 5,
             validation_samples = (n + 4) div 5,
             hyperparameters = [(''n_estimators'', 100), (''max_depth'', 10),
                                (''random_state'', 42)],
             feature_names = [''feature_0'', ''feature_1'', ''feature_2''],
             checksum = [], promoted = False, champion = False,
             notes_str = ''Trained due to: '' @ reason\<rparr>;
          (_, r') = register_model io r (trained_model env) metadata
      in (v, r'))"

definition train_initial_model ::
  "'m registry_io \<Rightarrow> 'm retrain_env \<Rightarrow> RetrainEngine \<Rightarrow> string \<times> RetrainEngine" where
  "train_initial_model io env eng =
     (let (v, r1) = train_and_register io env (model_registry eng) 1000 ''initial_training'' 0;
          (_, r2) = set_champion r1 v
      in (v, eng\<lparr>model_registry := r2\<rparr>))"

text \<open>
  \<open>trigger_retraining\<close>.  The training window is \<open>generate_synthetic_data(n_samples=500)\<close>,
  500 rows.  The candidate is registered first; the current champion is looked up after
  that.  An exception of \<open>pickle.load\<close> leaves the run at step 3; a model that did not
  load is \<open>None\<close> and fails in the validator at \<open>model.predict\<close>.  The log line of a failed
  validation reads \<open>validation_result['failures']\<close>.  After the promotion decision the event
  is appended to the history and then written to the log; the result is built after that.
\<close>

definition no_result :: retrain_result where
  "no_result =
     \<lparr>success = False, result_version = None, result_promoted = None, result_reason = None,
      result_samples = None, result_accuracy = None, result_message = None,
      result_improvement = None, result_validation = None\<rparr>"

definition trigger_retraining ::
  "'m registry_io \<Rightarrow> 'm retrain_env \<Rightarrow> RetrainEngine \<Rightarrow> real \<Rightarrow> string \<Rightarrow>
   retrain_error + (retrain_result \<times> RetrainEngine)" where
  "trigger_retraining io env eng score reason =
     (let n = 500 in
      if n < min_training_samples eng then
        Inr (no_result\<lparr>success := False, result_reason := Some ''insufficient_data'',
                        result_samples := Some n\<rparr>, eng)
      else
        (let (new_v, r1) = train_and_register io env (model_registry eng) n reason score in
         case (case load_model io r1 (Some new_v) of
                 Inl UnpicklingError \<Rightarrow> Inl UnpicklingFailed
               | Inl _ \<Rightarrow> Inr None
               | Inr m \<Rightarrow> Inr (Some m)) of
           Inl e \<Rightarrow> Inl e
         | Inr new_model \<Rightarrow>
             (case get_champion_model r1 of
                None \<Rightarrow>
                  (let (_, r2) = set_champion r1 new_v in
                   Inr (no_result\<lparr>success := True, result_version := Some new_v,
                                   result_promoted := Some True,
                                   result_reason := Some ''no_previous_champion''\<rparr>,
                        eng\<lparr>model_registry := r2\<rparr>))
              | Some current_metadata \<Rightarrow>
                  (case new_model of
                     None \<Rightarrow> Inl AttributeError
                   | Some m \<Rightarrow>
                       (let validation_result = validate_model env m in
                        case py_get ''passed'' validation_result of
                          None \<Rightarrow> Inl KeyError
                        | Some passed \<Rightarrow>
                       if \<not> truthy passed then
                         (case py_get ''failures'' validation_result of
                            None \<Rightarrow> Inl KeyError
                          | Some _ \<Rightarrow>
                         Inr (no_result\<lparr>success := False, result_version := Some new_v,
                                         result_promoted := Some False,
                                         result_reason := Some ''validation_failed'',
                                         result_validation := Some False\<rparr>,
                              eng\<lparr>model_registry := r1\<rparr>))
                       else
                         (case get_model_metadata r1 new_v of
                            None \<Rightarrow> Inl AttributeError
                          | Some new_metadata \<Rightarrow>
                              (let new_acc = accuracy new_metadata;
                                   current_acc = accuracy current_metadata;
                                   improve = new_acc - current_acc;
                                   (prom, r2) =
                                     (if improve \<ge> improvement_margin eng
                                      then (True, snd (set_champion r1 new_v))
                                      else (False, r1));
                                   event =
                                     \<lparr>event_reason = reason, event_drift_score = score,
                                      old_version = version current_metadata,
                                      new_version = new_v, old_accuracy = current_acc,
                                      new_accuracy = new_acc, improvement = improve,
                                      event_promoted = prom,
                                      event_validation = validation_result\<rparr>
                               in case save_retrain_log
                                         (eng\<lparr>model_registry := r2,
                                              retrain_history := retrain_history eng @ [event]\<rparr>)
                                         event of
                                    Inl e \<Rightarrow> Inl e
                                  | Inr eng' \<Rightarrow>
                                      Inr (no_result\<lparr>success := prom,
                                         result_version := Some new_v,
                                         result_promoted := Some prom,
                                         result_accuracy := Some new_acc,
                                         result_message :=
                                           Some (if prom then ''Retraining triggered successfully''
                                                 else ''Retraining completed, but model not promoted''),
                                         result_improvement := Some improve,
                                         result_validation := Some True\<rparr>,
                                       eng'))))))))"

subsection \<open>Example engines\<close>

text \<open>
  A freshly constructed engine over an empty registry, with the thresholds of \<open>__init__\<close>;
  a training run that gives accuracy 0.86 at a fixed time, with the validator that
  \<open>tests/test_retrain_pipeline.py\<close> installs (it returns
  \<open>{"passed": True, "checks": {"performance": 0.9}}\<close>); an engine whose registry holds one
  champion of accuracy 0.85, trained a day earlier.
\<close>

definition fresh_engine :: RetrainEngine where
  "fresh_engine =
     \<lparr>model_registry = empty_registry, min_training_samples = 100,
      improvement_margin = 2 / 100, retrain_history = [], retrain_log = []\<rparr>"

definition test_env :: "blob retrain_env" where
  "test_env =
     \<lparr>trained_model = ''forest'', trained_accuracy = 86 / 100,
      clock_version = ''v20240102_000000'', clock_created_at = ''2024-01-02T00:00:00+00:00'',
      validate_model =
        (\<lambda>m. PyDict [(''passed'', PyBool True),
                      (''checks'', PyDict [(''performance'', PyFloat (9 / 10))])])\<rparr>"

definition champion_engine :: RetrainEngine where
  "champion_engine =
     fresh_engine\<lparr>model_registry :=
       \<lparr>models = [(''v20240101_000000'',
                   (test_metadata ''v20240101_000000'' True)\<lparr>accuracy := 85 / 100,
                      checksum := ''dlo''\<rparr>)],
        files = [(model_path ''v20240101_000000'', ''old'')],
        registry_json = [(''v20240101_000000'',
                   (test_metadata ''v20240101_000000'' True)\<lparr>accuracy := 85 / 100,
                      checksum := ''dlo''\<rparr>)],
        audit = []\<rparr>\<rparr>"

text \<open>
  The same run with the validator of the repository, on a model that passes its four
  checks: metrics of 0.86, three balanced importances, two balanced classes, stable
  predictions.
\<close>

definition sound_measures :: validation_measures where
  "sound_measures =
     \<lparr>val_accuracy = Float (86 / 100), val_precision = Float64 (86 / 100),
      val_recall = Float64 (86 / 100), val_f1 = Float64 (86 / 100),
      importances = [1 / 2, 1 / 4, 1 / 4], max_importance = 1 / 2,
      pred_distribution = [1 / 2, 1 / 2], min_class_proportion = 1 / 2,
      stability = 1\<rparr>"

definition repository_env :: "blob retrain_env" where
  "repository_env =
     test_env\<lparr>validate_model :=
       (\<lambda>m. ModelValidator_validate_model sound_measures
               [''feature_0'', ''feature_1'', ''feature_2''])\<rparr>"

text \<open>A retrain in the second in which the champion was registered.\<close>

definition same_second_env :: "blob retrain_env" where
  "same_second_env =
     test_env\<lparr>clock_version := ''v20240101_000000'',
               clock_created_at := ''2024-01-01T00:00:00+00:00''\<rparr>"

section \<open>Properties of the registry\<close>

lemmas registry_defs =
  register_model_def promote_model_def set_champion_def rollback_to_version_def
  delete_model_def save_registry_def log_audit_def calculate_checksum_def Let_def

lemmas example_defs = test_metadata_def empty_registry_def test_io_def model_path_def

subsection \<open>Association lists under the registry's updates\<close>





lemma no_champion_after_clearing:
  "k \<notin> fst ` set al \<Longrightarrow>
   filter (\<lambda>(v, m). champion m)
     (AList.map_entry k (\<lambda>m. m\<lparr>champion := True\<rparr>)
        (map (\<lambda>(k, m). (k, m\<lparr>champion := False\<rparr>)) al)) = []"
  by (induction al) auto



subsection \<open>Each operation keeps a single champion\<close>














subsection \<open>Loading and the checksum\<close>

text \<open>
  C2.  For a version with a metadata record whose artifact file exists, \<open>load_model\<close>
  recomputes the checksum of the file and leaves through its checksum-mismatch exit (an
  error log line and no model) when it differs from the recorded one; and whenever
  \<open>load_model\<close> returns a model, for an explicit version or for the one it resolves itself,
  the model was unpickled from a file whose checksum equals the checksum recorded for that
  version, if the version has a record.
\<close>

theorem load_model_verifies_checksum:
  "(map_of (models r) v = Some metadata \<and> map_of (files r) (model_path v) = Some content \<and>
      checksum metadata \<noteq> sha256_hexdigest io content
      \<longrightarrow> load_model io r (Some v) = Inl ChecksumMismatch) \<and>
   (load_model io r vopt = Inr model
      \<longrightarrow> (\<exists>w bytes.
            (vopt = Some w \<or> vopt = None \<and> map_option version (get_champion_model r) = Some w) \<and>
            map_of (files r) (model_path w) = Some bytes \<and>
            pickle_load io bytes = Some model \<and>
            (\<forall>recorded. map_of (models r) w = Some recorded
               \<longrightarrow> checksum recorded = sha256_hexdigest io bytes)))"
proof (intro conjI impI)
  assume "map_of (models r) v = Some metadata \<and> map_of (files r) (model_path v) = Some content \<and>
      checksum metadata \<noteq> sha256_hexdigest io content"
  then show "load_model io r (Some v) = Inl ChecksumMismatch"
    by (simp add: load_model_def calculate_checksum_def)
next
  assume ok: "load_model io r vopt = Inr model"
  define res where "res = (case vopt of None \<Rightarrow> map_option version (get_champion_model r)
                           | Some v \<Rightarrow> Some v)"
  from ok obtain w where w: "res = Some w"
    by (cases res) (simp_all add: load_model_def res_def)
  from ok w obtain bytes where b: "map_of (files r) (model_path w) = Some bytes"
    by (cases "map_of (files r) (model_path w)") (simp_all add: load_model_def res_def)
  from ok w b have chk: "\<forall>recorded. map_of (models r) w = Some recorded
               \<longrightarrow> checksum recorded = sha256_hexdigest io bytes"
    by (auto simp: load_model_def res_def calculate_checksum_def split: if_splits)
  from ok w b have pl: "pickle_load io bytes = Some model"
    by (auto simp: load_model_def res_def split: if_splits option.splits)
  from w have "vopt = Some w \<or> vopt = None \<and> map_option version (get_champion_model r) = Some w"
    by (cases vopt) (simp_all add: res_def)
  with b chk pl show "\<exists>w bytes.
            (vopt = Some w \<or> vopt = None \<and> map_option version (get_champion_model r) = Some w) \<and>
            map_of (files r) (model_path w) = Some bytes \<and>
            pickle_load io bytes = Some model \<and>
            (\<forall>recorded. map_of (models r) w = Some recorded
               \<longrightarrow> checksum recorded = sha256_hexdigest io bytes)"
    by blast
qed

text \<open>
  A registered artifact loads; after its file is overwritten behind the registry's back
  the same call ends at the checksum mismatch.
\<close>

theorem load_model_verifies_checksum_witness:
  "load_model test_io
     ((snd (register_model test_io empty_registry ''m1'' (test_metadata ''v1'' False)))
        \<lparr>files := [(model_path ''v1'', ''tampered'')]\<rparr>) (Some ''v1'') = Inl ChecksumMismatch"
proof -
  let ?r = "snd (register_model test_io empty_registry ''m1'' (test_metadata ''v1'' False))"
  let ?t = "?r\<lparr>files := [(model_path ''v1'', ''tampered'')]\<rparr>"
  let ?md = "(test_metadata ''v1'' False)\<lparr>checksum := ''1m''\<rparr>"
  have "map_of (models ?t) ''v1'' = Some ?md"
    by (simp add: registry_defs example_defs)
  moreover have "map_of (files ?t) (model_path ''v1'') = Some ''tampered''"
    by simp
  moreover have "checksum ?md \<noteq> sha256_hexdigest test_io ''tampered''"
    by (simp add: test_io_def)
  ultimately show ?thesis
    using load_model_verifies_checksum[of ?t "''v1''" ?md "''tampered''" test_io]
    by blast
qed

text \<open>
  C10.  For a version without a metadata record whose artifact file exists, \<open>load_model\<close>
  returns what unpickling the file gives, whatever the checksum function; and, the file
  existing, the call ends at the checksum mismatch exactly when the version has a record
  whose checksum differs from the file's.
\<close>

theorem load_model_unregistered_unchecked:
  assumes "map_of (files r) (model_path v) = Some content"
  shows "(map_of (models r) v = None \<longrightarrow>
            (\<forall>h. load_model (io\<lparr>sha256_hexdigest := h\<rparr>) r (Some v) =
                 (case pickle_load io content of
                    None \<Rightarrow> Inl UnpicklingError | Some model \<Rightarrow> Inr model))) \<and>
         (load_model io r (Some v) = Inl ChecksumMismatch \<longleftrightarrow>
            (\<exists>metadata. map_of (models r) v = Some metadata \<and>
               checksum metadata \<noteq> sha256_hexdigest io content))"
proof (intro conjI impI allI)
  fix h
  assume "map_of (models r) v = None"
  with assms show "load_model (io\<lparr>sha256_hexdigest := h\<rparr>) r (Some v) =
                 (case pickle_load io content of
                    None \<Rightarrow> Inl UnpicklingError | Some model \<Rightarrow> Inr model)"
    by (simp add: load_model_def)
next
  show "load_model io r (Some v) = Inl ChecksumMismatch \<longleftrightarrow>
            (\<exists>metadata. map_of (models r) v = Some metadata \<and>
               checksum metadata \<noteq> sha256_hexdigest io content)"
    using assms
    by (cases "map_of (models r) v"; cases "pickle_load io content")
       (simp_all add: load_model_def calculate_checksum_def)
qed

theorem load_model_unregistered_unchecked_witness:
  "load_model test_io
     \<lparr>models = [], files = [(model_path ''ghost'', ''anything'')], registry_json = [], audit = []\<rparr>
     (Some ''ghost'') = Inr ''anything''"
proof -
  let ?r = "\<lparr>models = [], files = [(model_path ''ghost'', ''anything'')],
             registry_json = [], audit = []\<rparr>"
  have f: "map_of (files ?r) (model_path ''ghost'') = Some ''anything''" by simp
  have m: "map_of (models ?r) ''ghost'' = None" by simp
  from load_model_unregistered_unchecked[OF f, of test_io] m
  have "load_model (test_io\<lparr>sha256_hexdigest := rev\<rparr>) ?r (Some ''ghost'') =
        (case pickle_load test_io ''anything'' of
           None \<Rightarrow> Inl UnpicklingError | Some model \<Rightarrow> Inr model)"
    by blast
  then show ?thesis by (simp add: test_io_def)
qed

subsection \<open>Registering a version twice\<close>




subsection \<open>Deleting\<close>

lemma values_delete:
  "map snd (AList.delete v al) = map snd (filter (\<lambda>(k, m). k \<noteq> v) al)"
  by (induction al) auto

lemma versions_delete:
  "list_all (\<lambda>(k, m). version m = k) al \<Longrightarrow> v \<notin> version ` snd ` set (AList.delete v al)"
  by (induction al) auto

text \<open>
  C7.  Deleting the version whose record is flagged champion fails and leaves the whole
  registry state as it was; deleting a registered version that is not flagged succeeds,
  removes its key and its record from the table, so that \<open>list_models\<close> returns the other
  records in their order and, the keys being the versions of their records, none with
  that version.
\<close>

theorem delete_model_protects_champion:
  assumes "map_of (models r) v = Some metadata"
  shows "(champion metadata \<longrightarrow> delete_model r v = (False, r)) \<and>
         (\<not> champion metadata \<longrightarrow>
            fst (delete_model r v) \<and>
            v \<notin> fst ` set (models (snd (delete_model r v))) \<and>
            list_models (snd (delete_model r v))
              = map snd (filter (\<lambda>(k, m). k \<noteq> v) (models r)) \<and>
            (keys_match r \<longrightarrow> v \<notin> version ` set (list_models (snd (delete_model r v)))))"
proof (intro conjI impI)
  assume "champion metadata"
  with assms show "delete_model r v = (False, r)" by (simp add: delete_model_def)
next
  assume n: "\<not> champion metadata"
  with assms have m: "models (snd (delete_model r v)) = AList.delete v (models r)"
    by (simp add: registry_defs)
  from assms n show "fst (delete_model r v)" by (simp add: registry_defs)
  from m show "v \<notin> fst ` set (models (snd (delete_model r v)))"
    by (simp add: AList.delete_notin_dom)
  from m show "list_models (snd (delete_model r v))
              = map snd (filter (\<lambda>(k, m). k \<noteq> v) (models r))"
    by (simp add: list_models_def values_delete)
  assume "keys_match r"
  with m show "v \<notin> version ` set (list_models (snd (delete_model r v)))"
    using versions_delete[of "models r" v] by (simp add: list_models_def keys_match_def)
qed

theorem delete_model_protects_champion_witness:
  "delete_model
     (run_ops test_io empty_registry
        [Register ''m1'' (test_metadata ''a'' False), Register ''m2'' (test_metadata ''b'' False),
         SetChampion ''a'']) ''a''
   = (False, run_ops test_io empty_registry
        [Register ''m1'' (test_metadata ''a'' False), Register ''m2'' (test_metadata ''b'' False),
         SetChampion ''a'']) \<and>
   map version (list_models (snd (delete_model
     (run_ops test_io empty_registry
        [Register ''m1'' (test_metadata ''a'' False), Register ''m2'' (test_metadata ''b'' False),
         SetChampion ''a'']) ''b''))) = [''a'']"
proof -
  let ?r = "run_ops test_io empty_registry
        [Register ''m1'' (test_metadata ''a'' False), Register ''m2'' (test_metadata ''b'' False),
         SetChampion ''a'']"
  let ?a = "(test_metadata ''a'' False)\<lparr>checksum := ''1m'', champion := True\<rparr>"
  let ?b = "(test_metadata ''b'' False)\<lparr>checksum := ''2m''\<rparr>"
  have ms: "models ?r = [(''a'', ?a), (''b'', ?b)]"
    by (simp add: registry_defs test_metadata_def empty_registry_def test_io_def)
  have a: "map_of (models ?r) ''a'' = Some ?a" unfolding ms by simp
  have b: "map_of (models ?r) ''b'' = Some ?b" unfolding ms by simp
  have ca: "champion ?a" by simp
  have cb: "\<not> champion ?b" by (simp add: test_metadata_def)
  from delete_model_protects_champion[OF a] ca have "delete_model ?r ''a'' = (False, ?r)"
    by blast
  moreover from delete_model_protects_champion[OF b] cb
  have "list_models (snd (delete_model ?r ''b''))
      = map snd (filter (\<lambda>(k, m). k \<noteq> ''b'') (models ?r))"
    by blast
  then have "map version (list_models (snd (delete_model ?r ''b''))) = [''a'']"
    unfolding ms by (simp add: test_metadata_def)
  ultimately show ?thesis by simp
qed

section \<open>Properties of the adaptive window\<close>

subsection \<open>Rounding to doubles\<close>






subsection \<open>A stream of one value\<close>

lemma exact_mean_replicate: "0 < n \<Longrightarrow> np_mean exact_numpy (replicate n c) = c"
  by (simp add: exact_numpy_def sum_list_replicate)

lemma hoeffding_never_below_zero: "hoeffding_epsilon d n0 n1 = Inr eps \<Longrightarrow> \<not> exceeds 0 eps"
  by (auto simp: hoeffding_epsilon_def exceeds_def Let_def split: if_splits)

lemma hoeffding_defined: "d \<noteq> 0 \<Longrightarrow> \<exists>eps. hoeffding_epsilon d n0 n1 = Inr eps"
  by (simp add: hoeffding_epsilon_def Let_def)

lemma split_means_equal:
  assumes "\<forall>j. 5 \<le> j \<and> j + 5 \<le> n \<longrightarrow> np_mean np (replicate j c) = c"
    and "5 \<le> length (take i (replicate n c))" "5 \<le> length (drop i (replicate n c))"
  shows "np_mean np (take i (replicate n c)) - np_mean np (drop i (replicate n c)) = 0"
proof -
  from assms(2,3) have i: "5 \<le> i" "i + 5 \<le> n" by simp_all
  then have m: "min i n = i" by simp
  from i have "5 \<le> n - i" "n - i + 5 \<le> n" by simp_all
  with assms(1) have "np_mean np (replicate (n - i) c) = c" by blast
  moreover from assms(1) i have "np_mean np (replicate i c) = c" by blast
  ultimately show ?thesis by (simp add: m)
qed

lemma scan_splits_constant:
  assumes "\<forall>j. 5 \<le> j \<and> j + 5 \<le> n \<longrightarrow> np_mean np (replicate j c) = c"
  shows "scan_splits np a (replicate n c) is = Inr (False, a) \<or>
         scan_splits np a (replicate n c) is = Inl ZeroDivisionError"
proof (induction "is")
  case Nil
  then show ?case by simp
next
  case (Cons i rest)
  show ?case
  proof (cases "length (take i (replicate n c)) < 5 \<or> length (drop i (replicate n c)) < 5")
    case True
    with Cons show ?thesis by (simp add: Let_def)
  next
    case False
    then have "5 \<le> length (take i (replicate n c))" "5 \<le> length (drop i (replicate n c))"
      by auto
    then have eq: "np_mean np (take i (replicate n c)) - np_mean np (drop i (replicate n c)) = 0"
      by (rule split_means_equal[OF assms])
    show ?thesis
    proof (cases "hoeffding_epsilon (delta a) (length (take i (replicate n c)))
                    (length (drop i (replicate n c)))")
      case (Inl e)
      with False show ?thesis by (cases e) (simp add: Let_def)
    next
      case (Inr eps)
      then have "\<not> exceeds 0 eps" by (rule hoeffding_never_below_zero)
      with False Inr eq Cons show ?thesis by (simp add: Let_def)
    qed
  qed
qed

lemma scan_splits_no_error:
  "delta a \<noteq> 0 \<Longrightarrow> scan_splits np a wl is \<noteq> Inl e"
proof (induction "is")
  case Nil
  then show ?case by simp
next
  case (Cons i rest)
  from Cons.prems obtain eps where
    "hoeffding_epsilon (delta a) (length (take i wl)) (length (drop i wl)) = Inr eps"
    using hoeffding_defined by blast
  with Cons show ?case by (simp add: Let_def)
qed

lemma detect_change_constant:
  assumes "\<forall>j. 5 \<le> j \<and> j + 5 \<le> n \<longrightarrow> np_mean np (replicate j c) = c"
    and "delta a \<noteq> 0" "window a = replicate n c"
  shows "detect_change np a = Inr (False, a)"
  using scan_splits_constant[OF assms(1), of a "[1 ..< n]"] scan_splits_no_error[OF assms(2)]
    assms(3)
  by (auto simp: detect_change_def)


lemma add_element_first:
  "add_element np (constant_window d c 0) c = Inr (False, constant_window d c (Suc 0))"
  by (simp add: add_element_def constant_window_def Let_def)

lemma add_element_unfold_constant:
  assumes "0 < k"
  shows "add_element np (constant_window d c k) c =
           (case detect_change np (constant_window d c (Suc k)) of
              Inl e \<Rightarrow> Inl e
            | Inr (True, a4) \<Rightarrow>
                Inr (True, a4\<lparr>drift_detected := True, drift_count := drift_count a4 + 1\<rparr>)
            | Inr (False, a4) \<Rightarrow> Inr (False, a4))"
proof -
  have om: "real k * c / real k = c" using assms by simp
  have tot: "real k * c + c = (1 + real k) * c" by (simp add: algebra_simps)
  have nm: "(real k * c + c) / (1 + real k) = c" unfolding tot by simp
  have rep: "replicate k c @ [c] = c # replicate k c" by (simp add: replicate_append_same)
  from assms have k1: "int k + 1 \<noteq> 1" "int k + 1 \<noteq> 0" "1 < int k + 1" by simp_all
  show ?thesis
    using assms unfolding add_element_def constant_window_def
    by (simp add: Let_def om nm tot rep k1 algebra_simps)
qed


lemma add_element_constant:
  assumes "\<forall>j. 5 \<le> j \<and> j + 5 \<le> Suc k \<longrightarrow> np_mean np (replicate j c) = c"
    and "d \<noteq> 0"
  shows "add_element np (constant_window d c k) c = Inr (False, constant_window d c (Suc k))"
proof (cases "k = 0")
  case True
  then show ?thesis by (simp add: add_element_first)
next
  case False
  then have k: "0 < k" by simp
  have "delta (constant_window d c (Suc k)) \<noteq> 0"
    "window (constant_window d c (Suc k)) = replicate (Suc k) c"
    using assms(2) by (simp_all add: constant_window_def)
  then have "detect_change np (constant_window d c (Suc k))
               = Inr (False, constant_window d c (Suc k))"
    by (rule detect_change_constant[OF assms(1)])
  then show ?thesis by (simp add: add_element_unfold_constant[OF k])
qed





subsection \<open>Twelve copies of a double whose sums round\<close>



























section \<open>Properties of the retraining engine\<close>

lemma length_insert_desc: "length (insert_desc x ys) = Suc (length ys)"
  by (induction ys) auto

lemma length_foldl_insert_desc:
  "length (foldl (\<lambda>acc x. insert_desc x acc) acc xs) = length acc + length xs"
  by (induction xs arbitrary: acc) (simp_all add: length_insert_desc)

lemma get_latest_model_None: "get_latest_model r = None \<longleftrightarrow> models r = []"
proof (cases "models r = []")
  case True
  then show ?thesis by (simp add: get_latest_model_def)
next
  case False
  have "length (sorted_desc (models r)) = length (models r)"
    by (simp add: sorted_desc_def length_foldl_insert_desc)
  with False have "sorted_desc (models r) \<noteq> []" by auto
  with False show ?thesis
    by (cases "sorted_desc (models r)") (simp_all add: get_latest_model_def)
qed

lemma get_champion_model_None: "get_champion_model r = None \<longleftrightarrow> models r = []"
proof (cases "find (\<lambda>(v, metadata). champion metadata) (models r)")
  case None
  then show ?thesis by (simp add: get_champion_model_def get_latest_model_None)
next
  case (Some a)
  then have "models r \<noteq> []" by auto
  with Some show ?thesis by (cases a) (simp add: get_champion_model_def)
qed

text \<open>Once a candidate is registered the champion lookup cannot come back empty.\<close>

lemma champion_lookup_after_register:
  "get_champion_model (snd (register_model io r model metadata)) \<noteq> None"
  by (simp add: get_champion_model_None registry_defs)

lemma train_and_register_unfold:
  "train_and_register io env r n reason score =
     (clock_version env,
      snd (register_model io r (trained_model env)
        \<lparr>version = clock_version env, created_at = clock_created_at env,
         model_type = ''RandomForestClassifier'', accuracy = trained_accuracy env,
         drift_score = score, training_samples = n - (n + 4) div 5,
         validation_samples = (n + 4) div 5,
         hyperparameters = [(''n_estimators'', 100), (''max_depth'', 10),
                            (''random_state'', 42)],
         feature_names = [''feature_0'', ''feature_1'', ''feature_2''],
         checksum = [], promoted = False, champion = False,
         notes_str = ''Trained due to: '' @ reason\<rparr>))"
  by (simp add: train_and_register_def Let_def case_prod_unfold)

lemma champion_lookup_after_training:
  "get_champion_model (snd (train_and_register io env r n reason score)) \<noteq> None"
  by (simp add: train_and_register_unfold champion_lookup_after_register)

text \<open>The cold-start exit of \<open>trigger_retraining\<close> is never taken.\<close>

lemma cold_start_exit_unreachable:
  assumes "trigger_retraining io env eng score reason = Inr (res, eng')"
  shows "result_reason res \<noteq> Some ''no_previous_champion''"
proof (cases "500 < min_training_samples eng")
  case True
  with assms show ?thesis by (auto simp: trigger_retraining_def no_result_def)
next
  case False
  obtain v r1 where tr: "train_and_register io env (model_registry eng) 500 reason score = (v, r1)"
    by (cases "train_and_register io env (model_registry eng) 500 reason score")
  with champion_lookup_after_training[of io env "model_registry eng" 500 reason score]
  obtain cur where cur: "get_champion_model r1 = Some cur" by auto
  show ?thesis
  proof (cases "load_model io r1 (Some v)")
    case (Inl fault)
    with assms False tr cur show ?thesis
      by (cases fault) (simp_all add: trigger_retraining_def Let_def)
  next
    case (Inr m)
    show ?thesis
    proof (cases "py_get ''passed'' (validate_model env m)")
      case None
      with assms False tr cur Inr show ?thesis
        by (simp add: trigger_retraining_def Let_def)
    next
      case (Some passed)
      show ?thesis
      proof (cases "truthy passed")
        case no: False
        with assms False tr cur Inr Some show ?thesis
          by (cases "py_get ''failures'' (validate_model env m)")
             (auto simp: trigger_retraining_def Let_def no_result_def)
      next
        case yes: True
        show ?thesis
        proof (cases "get_model_metadata r1 v")
          case None
          with assms False tr cur Inr Some yes show ?thesis
            by (simp add: trigger_retraining_def Let_def)
        next
          case md: (Some md)
          show ?thesis
          proof (cases "improvement_margin eng \<le> accuracy md - accuracy cur")
            case True
            with assms False tr cur Inr Some yes md show ?thesis
              by (auto simp: trigger_retraining_def Let_def no_result_def save_retrain_log_def
                  split: if_splits)
          next
            case below: False
            with assms False tr cur Inr Some yes md show ?thesis
              by (auto simp: trigger_retraining_def Let_def no_result_def save_retrain_log_def
                  split: if_splits)
          qed
        qed
      qed
    qed
  qed
qed

text \<open>
  C3.  On an empty registry the run with drift score 85 registers its candidate, finds
  that candidate as the current model (the champion lookup falls back to the latest
  record), validates it, compares it with itself and keeps it unpromoted: the result has
  \<open>promoted = False\<close> and no \<open>reason\<close>, and no record is champion afterwards.
\<close>

theorem cold_start_retrain_not_promoted:
  "map_sum id fst (trigger_retraining test_io test_env fresh_engine 85 ''drift_detected'')
     = Inr \<lparr>success = False, result_version = Some ''v20240102_000000'',
            result_promoted = Some False, result_reason = None, result_samples = None,
            result_accuracy = Some (86 / 100),
            result_message = Some ''Retraining completed, but model not promoted'',
            result_improvement = Some 0, result_validation = Some True\<rparr> \<and>
   map_sum id (\<lambda>out. champions (model_registry (snd out)))
     (trigger_retraining test_io test_env fresh_engine 85 ''drift_detected'') = Inr [] \<and>
   champions (model_registry fresh_engine) = []"
  by (simp add: trigger_retraining_def train_and_register_def fresh_engine_def test_env_def
      test_io_def empty_registry_def registry_defs load_model_def get_champion_model_def
      get_latest_model_def sorted_desc_def get_model_metadata_def no_result_def champions_def
      save_retrain_log_def)

subsection \<open>A candidate that passes validation\<close>

lemma find_first_of_filter: "filter P xs = x # rest \<Longrightarrow> find P xs = Some x"
proof (induction xs)
  case Nil
  then show ?case by simp
next
  case (Cons a xs)
  then show ?case by (cases "P a") simp_all
qed

lemma find_update_other:
  "find P ms = Some (k, cur) \<Longrightarrow> k \<noteq> v \<Longrightarrow> \<not> P (v, md) \<Longrightarrow>
   find P (AList.update v md ms) = Some (k, cur)"
proof (induction ms)
  case Nil
  then show ?case by simp
next
  case (Cons a ms)
  obtain k' m' where a: "a = (k', m')" by (cases a)
  show ?case
  proof (cases "P a")
    case True
    with Cons.prems a show ?thesis by auto
  next
    case False
    with Cons a show ?thesis by (cases "k' = v") simp_all
  qed
qed

lemma filter_update_unflagged:
  "\<not> P (v, md) \<Longrightarrow> \<forall>m. (v, m) \<in> set ms \<longrightarrow> \<not> P (v, m) \<Longrightarrow>
   filter P (AList.update v md ms) = filter P ms"
  by (induction ms) auto

text \<open>
  The run from the validation on: the candidate loads back and \<open>passed\<close> is true.  The
  promotion is decided, the event joins the history, and the result is returned only if
  the log line can be written.
\<close>

lemma trigger_retraining_validated:
  assumes "min_training_samples eng \<le> 500"
    and "pickle_load io (pickle_dump io (trained_model env)) = Some m"
    and "py_get ''passed'' (validate_model env m) = Some p" and "truthy p"
    and "get_champion_model (snd (train_and_register io env (model_registry eng) 500 reason score))
           = Some cur"
  shows "trigger_retraining io env eng score reason =
     (let r1 = snd (train_and_register io env (model_registry eng) 500 reason score);
          prom = (improvement_margin eng \<le> trained_accuracy env - accuracy cur);
          r2 = (if prom then snd (set_champion r1 (clock_version env)) else r1);
          event = \<lparr>event_reason = reason, event_drift_score = score, old_version = version cur,
                   new_version = clock_version env, old_accuracy = accuracy cur,
                   new_accuracy = trained_accuracy env,
                   improvement = trained_accuracy env - accuracy cur, event_promoted = prom,
                   event_validation = validate_model env m\<rparr>
      in case save_retrain_log
                (eng\<lparr>model_registry := r2, retrain_history := retrain_history eng @ [event]\<rparr>)
                event of
           Inl e \<Rightarrow> Inl e
         | Inr eng' \<Rightarrow>
             Inr (no_result\<lparr>success := prom, result_version := Some (clock_version env),
                    result_promoted := Some prom,
                    result_accuracy := Some (trained_accuracy env),
                    result_message :=
                      Some (if prom then ''Retraining triggered successfully''
                            else ''Retraining completed, but model not promoted''),
                    result_improvement := Some (trained_accuracy env - accuracy cur),
                    result_validation := Some True\<rparr>,
                  eng'))"
proof -
  let ?r = "model_registry eng"
  let ?v = "clock_version env"
  define md where "md =
       \<lparr>version = clock_version env, created_at = clock_created_at env,
         model_type = ''RandomForestClassifier'', accuracy = trained_accuracy env,
         drift_score = score, training_samples = 500 - (500 + 4) div 5,
         validation_samples = (500 + 4) div 5,
         hyperparameters = [(''n_estimators'', 100), (''max_depth'', 10),
                            (''random_state'', 42)],
         feature_names = [''feature_0'', ''feature_1'', ''feature_2''],
         checksum = sha256_hexdigest io (pickle_dump io (trained_model env)),
         promoted = False, champion = False,
         notes_str = ''Trained due to: '' @ reason\<rparr>"
  define r1 where "r1 = snd (train_and_register io env ?r 500 reason score)"
  have tr: "train_and_register io env ?r 500 reason score = (?v, r1)"
    by (simp add: r1_def train_and_register_unfold)
  have fs: "map_of (files r1) (model_path ?v) = Some (pickle_dump io (trained_model env))"
    by (simp add: r1_def train_and_register_unfold registry_defs AList.update_conv')
  have mdv: "map_of (models r1) ?v = Some md"
    by (simp add: r1_def md_def train_and_register_unfold registry_defs AList.update_conv')
  have load: "load_model io r1 (Some ?v) = Inr m"
    using assms(2) by (simp add: load_model_def fs mdv calculate_checksum_def md_def)
  have cur: "get_champion_model r1 = Some cur" using assms(5) by (simp add: r1_def)
  have meta: "get_model_metadata r1 ?v = Some md"
    by (simp add: get_model_metadata_def mdv)
  have acc: "accuracy md = trained_accuracy env" by (simp add: md_def)
  from assms(1) have enough: "\<not> 500 < min_training_samples eng" by simp
  show ?thesis
  proof (cases "improvement_margin eng \<le> trained_accuracy env - accuracy cur")
    case True
    then show ?thesis
      unfolding r1_def[symmetric]
      using enough assms(3,4)
      by (simp add: trigger_retraining_def tr load cur meta acc Let_def)
  next
    case False
    then show ?thesis
      unfolding r1_def[symmetric]
      using enough assms(3,4)
      by (simp add: trigger_retraining_def tr load cur meta acc Let_def)
  qed
qed

text \<open>
  The champion records after the candidate is registered under another version, and
  after a decision not to promote.
\<close>

lemma champions_after_training:
  assumes "champions r = [(k, cur)]" and "clock_version env \<noteq> k"
  shows "champions (snd (train_and_register io env r 500 reason score)) = [(k, cur)]"
    and "get_champion_model r = Some cur"
    and "get_champion_model (snd (train_and_register io env r 500 reason score)) = Some cur"
proof -
  let ?v = "clock_version env"
  let ?P = "\<lambda>(v, metadata). champion metadata"
  define md where "md =
       \<lparr>version = clock_version env, created_at = clock_created_at env,
         model_type = ''RandomForestClassifier'', accuracy = trained_accuracy env,
         drift_score = score, training_samples = 500 - (500 + 4) div 5,
         validation_samples = (500 + 4) div 5,
         hyperparameters = [(''n_estimators'', 100), (''max_depth'', 10),
                            (''random_state'', 42)],
         feature_names = [''feature_0'', ''feature_1'', ''feature_2''],
         checksum = sha256_hexdigest io (pickle_dump io (trained_model env)),
         promoted = False, champion = False,
         notes_str = ''Trained due to: '' @ reason\<rparr>"
  define r1 where "r1 = snd (train_and_register io env r 500 reason score)"
  have ms: "models r1 = AList.update ?v md (models r)"
    by (simp add: r1_def md_def train_and_register_unfold registry_defs)
  have nc: "\<not> ?P (?v, md)" by (simp add: md_def)
  from assms(1) have first: "find ?P (models r) = Some (k, cur)"
    by (intro find_first_of_filter[of _ _ _ "[]"]) (simp add: champions_def)
  then show "get_champion_model r = Some cur"
    by (simp add: get_champion_model_def)
  from first assms(2) nc have "find ?P (models r1) = Some (k, cur)"
    unfolding ms by (intro find_update_other) auto
  then show "get_champion_model (snd (train_and_register io env r 500 reason score)) = Some cur"
    by (simp add: get_champion_model_def r1_def)
  have unflagged: "\<forall>m'. (?v, m') \<in> set (models r) \<longrightarrow> \<not> ?P (?v, m')"
  proof (intro allI impI)
    fix m'
    assume in_table: "(?v, m') \<in> set (models r)"
    show "\<not> ?P (?v, m')"
    proof
      assume "?P (?v, m')"
      with in_table have "(?v, m') \<in> set (champions r)" by (simp add: champions_def)
      with assms(1,2) show False by simp
    qed
  qed
  show "champions (snd (train_and_register io env r 500 reason score)) = [(k, cur)]"
    using filter_update_unflagged[OF nc unflagged] assms(1)
    by (simp add: champions_def ms r1_def[symmetric])
qed

subsection \<open>The validator of the repository\<close>

lemma explainability_passed_numpy:
  "py_get ''passed'' (check_explainability ms names)
     = Some (NumpyBool (max_importance ms < 8 / 10))"
  by (simp add: check_explainability_def Let_def)

lemma check_explainability_not_serializable:
  "\<not> json_serializable (check_explainability ms names)"
  by (simp add: check_explainability_def Let_def)

lemma check_stability_not_serializable: "\<not> json_serializable (check_stability ms)"
  by (simp add: check_stability_def Let_def)

text \<open>No result of \<open>ModelValidator.validate_model\<close> can be written by \<open>json.dumps\<close>.\<close>

lemma ModelValidator_not_serializable:
  "\<not> json_serializable (ModelValidator_validate_model ms names)"
  by (simp add: ModelValidator_validate_model_def Let_def check_explainability_not_serializable)

lemma ModelValidator_passed:
  "py_get ''passed'' (ModelValidator_validate_model ms names)
     = Some (PyBool (check_passed (check_performance ms) \<and>
                     check_passed (check_explainability ms names) \<and>
                     check_passed (check_fairness ms) \<and>
                     check_passed (check_stability ms)))"
  by (simp add: ModelValidator_validate_model_def Let_def)

lemma sound_measures_pass:
  "py_get ''passed''
     (ModelValidator_validate_model sound_measures [''feature_0'', ''feature_1'', ''feature_2''])
   = Some (PyBool True)"
  by (simp add: ModelValidator_passed check_passed_def check_performance_def
      check_explainability_def check_fairness_def check_stability_def sound_measures_def
      py_and_def py_or_def Let_def)

subsection \<open>A candidate below the margin\<close>

text \<open>
  With a validator whose result \<open>json.dumps\<close> can write (as the one the repository's test
  installs) and a candidate version other than the champion's, a candidate below the
  margin is not promoted and the champion is the same record before and after.
\<close>

lemma below_margin_keeps_champion_if_logged:
  assumes "champions (model_registry eng) = [(k, cur)]"
    and "clock_version env \<noteq> k"
    and "min_training_samples eng \<le> 500"
    and "pickle_load io (pickle_dump io (trained_model env)) = Some m"
    and "py_get ''passed'' (validate_model env m) = Some p" and "truthy p"
    and "json_serializable (validate_model env m)"
    and "trained_accuracy env - accuracy cur < improvement_margin eng"
  shows "\<exists>res eng'.
           trigger_retraining io env eng score reason = Inr (res, eng') \<and>
           result_promoted res = Some False \<and>
           champions (model_registry eng') = [(k, cur)] \<and>
           get_champion_model (model_registry eng) = Some cur \<and>
           get_champion_model (model_registry eng') = Some cur"
proof -
  note ch = champions_after_training(1)[OF assms(1,2), where io = io and reason = reason and score = score]
    champions_after_training(2)[OF assms(1,2)]
    champions_after_training(3)[OF assms(1,2), where io = io and reason = reason and score = score]
  from assms(8) have below: "\<not> improvement_margin eng \<le> trained_accuracy env - accuracy cur"
    by simp
  show ?thesis
    using trigger_retraining_validated[OF assms(3,4,5,6) ch(3)] below assms(7) ch
    by (simp add: Let_def save_retrain_log_def)
qed

text \<open>
  A retrain in the second in which the champion was registered gets the champion's
  version: the candidate replaces the champion's record and artifact, the lookup falls
  back to the candidate itself, and no record is champion afterwards.
\<close>

lemma same_second_retrain_drops_champion:
  "map fst (champions (model_registry champion_engine)) = [''v20240101_000000''] \<and>
   map_sum id (\<lambda>out. (result_promoted (fst out), result_improvement (fst out),
                       champions (model_registry (snd out)),
                       map_of (files (model_registry (snd out))) (model_path ''v20240101_000000'')))
     (trigger_retraining test_io same_second_env champion_engine 85 ''drift_detected'')
   = Inr (Some False, Some 0, [], Some ''forest'')"
  by (simp add: trigger_retraining_def train_and_register_def fresh_engine_def test_env_def
      same_second_env_def champion_engine_def test_metadata_def
      test_io_def empty_registry_def registry_defs load_model_def get_champion_model_def
      get_latest_model_def sorted_desc_def get_model_metadata_def no_result_def champions_def
      save_retrain_log_def model_path_def)

text \<open>
  C8.  With the validator of the repository, a run whose candidate loads back and passes
  validation returns no result, whatever the improvement: \<open>_save_retrain_log\<close> raises the
  \<open>TypeError\<close> of \<open>json.dumps\<close> on the \<open>numpy.bool_\<close> entries of the validation result, after
  the promotion decision and after the event has joined the history; nothing is written
  to the log.  When the registry holds one champion, the candidate has another version
  and its accuracy is above the champion's by less than the margin (or below it), the
  champion records are the same before the call and at the exception.
\<close>

theorem validated_retrain_raises_type_error:
  assumes "min_training_samples eng \<le> 500"
    and "pickle_load io (pickle_dump io (trained_model env)) = Some m"
    and "validate_model env m = ModelValidator_validate_model ms names"
    and "py_get ''passed'' (ModelValidator_validate_model ms names) = Some (PyBool True)"
  shows "\<exists>eng' event.
           trigger_retraining io env eng score reason = Inl (TypeError eng') \<and>
           retrain_history eng' = retrain_history eng @ [event] \<and>
           retrain_log eng' = retrain_log eng \<and>
           (\<forall>k cur. champions (model_registry eng) = [(k, cur)] \<and> clock_version env \<noteq> k \<and>
                     trained_accuracy env - accuracy cur < improvement_margin eng
              \<longrightarrow> event_promoted event = False \<and>
                  champions (model_registry eng') = [(k, cur)] \<and>
                  get_champion_model (model_registry eng') = Some cur)"
proof -
  let ?r1 = "snd (train_and_register io env (model_registry eng) 500 reason score)"
  obtain cur0 where cur0: "get_champion_model ?r1 = Some cur0"
    using champion_lookup_after_training[of io env "model_registry eng" 500 reason score]
    by auto
  have p: "py_get ''passed'' (validate_model env m) = Some (PyBool True)"
    using assms(3,4) by simp
  have t: "truthy (PyBool True)" by simp
  have ns: "\<not> json_serializable (validate_model env m)"
    unfolding assms(3) by (rule ModelValidator_not_serializable)
  define prom where "prom = (improvement_margin eng \<le> trained_accuracy env - accuracy cur0)"
  define r2 where "r2 = (if prom then snd (set_champion ?r1 (clock_version env)) else ?r1)"
  define event where "event =
     \<lparr>event_reason = reason, event_drift_score = score, old_version = version cur0,
      new_version = clock_version env, old_accuracy = accuracy cur0,
      new_accuracy = trained_accuracy env,
      improvement = trained_accuracy env - accuracy cur0, event_promoted = prom,
      event_validation = validate_model env m\<rparr>"
  define eng1 where
    "eng1 = eng\<lparr>model_registry := r2, retrain_history := retrain_history eng @ [event]\<rparr>"
  have run: "trigger_retraining io env eng score reason = Inl (TypeError eng1)"
    using trigger_retraining_validated[OF assms(1,2) p t cur0] ns
    by (simp add: Let_def save_retrain_log_def eng1_def event_def r2_def prom_def)
  have hist: "retrain_history eng1 = retrain_history eng @ [event]"
    and log: "retrain_log eng1 = retrain_log eng"
    by (simp_all add: eng1_def)
  have frame: "\<forall>k cur. champions (model_registry eng) = [(k, cur)] \<and> clock_version env \<noteq> k \<and>
                     trained_accuracy env - accuracy cur < improvement_margin eng
              \<longrightarrow> event_promoted event = False \<and>
                  champions (model_registry eng1) = [(k, cur)] \<and>
                  get_champion_model (model_registry eng1) = Some cur"
  proof (intro allI impI)
    fix k cur
    assume h: "champions (model_registry eng) = [(k, cur)] \<and> clock_version env \<noteq> k \<and>
               trained_accuracy env - accuracy cur < improvement_margin eng"
    then have c: "champions (model_registry eng) = [(k, cur)]" and v: "clock_version env \<noteq> k"
      and b: "trained_accuracy env - accuracy cur < improvement_margin eng"
      by simp_all
    note ch = champions_after_training(1)[OF c v, where io = io and reason = reason and score = score]
      champions_after_training(2)[OF c v]
      champions_after_training(3)[OF c v, where io = io and reason = reason and score = score]
    from ch(3) cur0 have same: "cur0 = cur" by simp
    with b have np: "\<not> prom" by (simp add: prom_def)
    then have "r2 = ?r1" by (simp add: r2_def)
    then have "model_registry eng1 = ?r1" by (simp add: eng1_def)
    with ch np show "event_promoted event = False \<and>
                  champions (model_registry eng1) = [(k, cur)] \<and>
                  get_champion_model (model_registry eng1) = Some cur"
      by (simp add: event_def)
  qed
  from run hist log frame show ?thesis by blast
qed

text \<open>
  The engine with a champion of accuracy 0.85 and a candidate of accuracy 0.86, margin
  0.02, validated by the repository's validator: a \<open>TypeError\<close>, the champion in place, one
  event in the history and none in the log.
\<close>

theorem validated_retrain_raises_type_error_witness:
  "(case trigger_retraining test_io repository_env champion_engine 85 ''drift_detected'' of
      Inl (TypeError eng') \<Rightarrow>
        Some (map fst (champions (model_registry eng')),
              map event_promoted (retrain_history eng'), retrain_log eng')
    | _ \<Rightarrow> None)
   = Some ([''v20240101_000000''], [False], [])"
proof -
  let ?cur = "(test_metadata ''v20240101_000000'' True)\<lparr>accuracy := 85 / 100, checksum := ''dlo''\<rparr>"
  let ?names = "[''feature_0'', ''feature_1'', ''feature_2'']"
  have 1: "min_training_samples champion_engine \<le> 500"
    by (simp add: champion_engine_def fresh_engine_def)
  have 2: "pickle_load test_io (pickle_dump test_io (trained_model repository_env)) = Some ''forest''"
    by (simp add: test_io_def test_env_def repository_env_def)
  have 3: "validate_model repository_env ''forest''
             = ModelValidator_validate_model sound_measures ?names"
    by (simp add: repository_env_def)
  from validated_retrain_raises_type_error[OF 1 2 3 sound_measures_pass,
      of 85 "''drift_detected''"]
  obtain eng' event where
    run: "trigger_retraining test_io repository_env champion_engine 85 ''drift_detected''
            = Inl (TypeError eng')" and
    hist: "retrain_history eng' = retrain_history champion_engine @ [event]" and
    log: "retrain_log eng' = retrain_log champion_engine" and
    frame: "\<forall>k cur. champions (model_registry champion_engine) = [(k, cur)] \<and>
                     clock_version repository_env \<noteq> k \<and>
                     trained_accuracy repository_env - accuracy cur
                       < improvement_margin champion_engine
              \<longrightarrow> event_promoted event = False \<and>
                  champions (model_registry eng') = [(k, cur)] \<and>
                  get_champion_model (model_registry eng') = Some cur"
    by blast
  have a: "champions (model_registry champion_engine) = [(''v20240101_000000'', ?cur)]"
    by (simp add: champions_def champion_engine_def fresh_engine_def test_metadata_def)
  have b: "clock_version repository_env \<noteq> ''v20240101_000000''"
    by (simp add: repository_env_def test_env_def)
  have c: "trained_accuracy repository_env - accuracy ?cur < improvement_margin champion_engine"
    by (simp add: repository_env_def test_env_def champion_engine_def fresh_engine_def)
  from frame a b c have "event_promoted event = False"
    "champions (model_registry eng') = [(''v20240101_000000'', ?cur)]"
    by blast+
  moreover have "retrain_history champion_engine = []" "retrain_log champion_engine = []"
    by (simp_all add: champion_engine_def fresh_engine_def)
  ultimately show ?thesis using run hist log by simp
qed

subsection \<open>The empty registry and the validator of the repository\<close>

text \<open>
  The run on the empty registry with the validator of the repository: the candidate is
  compared with itself and not promoted, and the log write raises.
\<close>

lemma cold_start_retrain_repository_validator:
  "(case trigger_retraining test_io repository_env fresh_engine 85 ''drift_detected'' of
      Inl (TypeError eng') \<Rightarrow>
        Some (champions (model_registry eng'), map event_promoted (retrain_history eng'))
    | _ \<Rightarrow> None)
   = Some ([], [False])"
proof -
  have 1: "min_training_samples fresh_engine \<le> 500" by (simp add: fresh_engine_def)
  have 2: "pickle_load test_io (pickle_dump test_io (trained_model repository_env)) = Some ''forest''"
    by (simp add: test_io_def test_env_def repository_env_def)
  have 3: "py_get ''passed'' (validate_model repository_env ''forest'') = Some (PyBool True)"
    using sound_measures_pass by (simp add: repository_env_def)
  have 4: "truthy (PyBool True)" by simp
  define cur where "cur =
     \<lparr>version = ''v20240102_000000'', created_at = ''2024-01-02T00:00:00+00:00'',
      model_type = ''RandomForestClassifier'', accuracy = 86 / 100,
      drift_score = 85, training_samples = 400, validation_samples = 100,
      hyperparameters = [(''n_estimators'', 100), (''max_depth'', 10), (''random_state'', 42)],
      feature_names = [''feature_0'', ''feature_1'', ''feature_2''],
      checksum = ''tserof'', promoted = False, champion = False,
      notes_str = ''Trained due to: drift_detected''\<rparr>"
  have r1: "models (snd (train_and_register test_io repository_env (model_registry fresh_engine)
                    500 ''drift_detected'' 85)) = [(''v20240102_000000'', cur)]"
    by (simp add: train_and_register_unfold registry_defs fresh_engine_def empty_registry_def
        repository_env_def test_env_def test_io_def cur_def)
  have 5: "get_champion_model (snd (train_and_register test_io repository_env
             (model_registry fresh_engine) 500 ''drift_detected'' 85)) = Some cur"
    by (simp add: get_champion_model_def get_latest_model_def sorted_desc_def r1 cur_def)
  have ns: "\<not> json_serializable (validate_model repository_env ''forest'')"
    by (simp add: repository_env_def ModelValidator_not_serializable)
  have acc: "trained_accuracy repository_env = 86 / 100"
    by (simp add: repository_env_def test_env_def)
  have m: "improvement_margin fresh_engine = 2 / 100" "retrain_history fresh_engine = []"
    by (simp_all add: fresh_engine_def)
  show ?thesis
    using trigger_retraining_validated[OF 1 2 3 4 5] ns
    by (simp add: Let_def save_retrain_log_def acc m champions_def r1 cur_def)
qed

section \<open>Properties of the drift engine\<close>

lemma ncols_replicate_append: "0 < n \<Longrightarrow> ncols (replicate n r @ rows) = length r"
  by (cases n) (simp_all add: ncols_def)

lemma ncols_replicate: "0 < n \<Longrightarrow> ncols (replicate n r) = length r"
  using ncols_replicate_append[of n r "[]"] by simp

lemma sample_tests_mean: "np_mean (sample_tests s) = np_mean exact_numpy"
  by (simp add: sample_tests_def)

lemma sample_tests_mean_replicate:
  "\<forall>j. 5 \<le> j \<and> j + 5 \<le> n \<longrightarrow> np_mean (sample_tests s) (replicate j c) = c"
  by (simp add: sample_tests_mean exact_mean_replicate)

lemma sample_tests_mean_single: "np_mean (sample_tests s) [x] = x"
  by (simp add: sample_tests_def exact_numpy_def)

subsection \<open>What the feature loop accumulates\<close>

lemma feature_is_affected_iff:
  "feature_is_affected t d ref i \<longleftrightarrow>
     psi (feature_signal t d ref i) > drift_threshold d \<or>
     ks_pvalue (feature_signal t d ref i) < 5 / 100 \<or>
     adwin_drift (feature_signal t d ref i)"
  by (simp add: feature_is_affected_def feature_signal_def kolmogorov_smirnov_test_def Let_def
      split: prod.splits)

lemma feature_loop_step:
  assumes "feature_loop t d ref (current_features d) (i # rest) (s, a, f) = Inr r"
  shows "feature_loop t d ref (current_features d) rest
           (if feature_is_affected t d ref i
            then (s @ [feature_drift_score (feature_signal t d ref i)], a @ [i],
                  f @ [feature_signal t d ref i])
            else (s, a, f @ [feature_signal t d ref i])) = Inr r"
proof -
  from assms have rf: "column i ref = Inr (map (\<lambda>r. r ! i) ref)"
    by (cases "i < ncols ref") (simp_all add: column_def)
  from assms rf have cf: "column i (current_features d) = Inr (map (\<lambda>r. r ! i) (current_features d))"
    by (cases "i < ncols (current_features d)") (simp_all add: column_def)
  obtain ks_stat ks_pval ks_drift where ks:
    "kolmogorov_smirnov_test t (map (\<lambda>r. r ! i) ref) (map (\<lambda>r. r ! i) (current_features d))
       = (ks_stat, ks_pval, ks_drift)"
    by (cases "kolmogorov_smirnov_test t (map (\<lambda>r. r ! i) ref)
                 (map (\<lambda>r. r ! i) (current_features d))") auto
  from assms rf cf ks have i: "i < length (adwin_detectors d)"
    by (simp add: Let_def split: if_splits)
  have sig: "feature_signal t d ref i =
      \<lparr>feature_index = i,
       psi = population_stability_index t (map (\<lambda>r. r ! i) ref)
               (map (\<lambda>r. r ! i) (current_features d)),
       ks_statistic = ks_stat, ks_pvalue = ks_pval,
       kl_div = kl_divergence t (map (\<lambda>r. r ! i) ref) (map (\<lambda>r. r ! i) (current_features d)),
       adwin_drift = drift_detected (adwin_detectors d ! i),
       feature_drift_score =
         (population_stability_index t (map (\<lambda>r. r ! i) ref)
            (map (\<lambda>r. r ! i) (current_features d)) / (2 / 10)) * 25
         + ks_stat * 25
         + min (kl_divergence t (map (\<lambda>r. r ! i) ref)
                  (map (\<lambda>r. r ! i) (current_features d))) 1 * 25
         + (if drift_detected (adwin_detectors d ! i) then 1 else 0) * 25\<rparr>"
    by (simp add: feature_signal_def ks Let_def)
  have aff: "feature_is_affected t d ref i \<longleftrightarrow>
      population_stability_index t (map (\<lambda>r. r ! i) ref) (map (\<lambda>r. r ! i) (current_features d))
        > drift_threshold d \<or> ks_drift \<or> drift_detected (adwin_detectors d ! i)"
    by (simp add: feature_is_affected_def ks Let_def)
  show ?thesis
  proof (cases "feature_is_affected t d ref i")
    case True
    with aff have c: "population_stability_index t (map (\<lambda>r. r ! i) ref)
          (map (\<lambda>r. r ! i) (current_features d)) > drift_threshold d
        \<or> ks_drift \<or> drift_detected (adwin_detectors d ! i)"
      by simp
    have "feature_loop t d ref (current_features d) (i # rest) (s, a, f)
        = feature_loop t d ref (current_features d) rest
            (s @ [feature_drift_score (feature_signal t d ref i)], a @ [i],
             f @ [feature_signal t d ref i])"
      unfolding sig using c by (simp add: rf cf ks i Let_def)
    with assms True show ?thesis by simp
  next
    case False
    with aff have c: "\<not> (population_stability_index t (map (\<lambda>r. r ! i) ref)
          (map (\<lambda>r. r ! i) (current_features d)) > drift_threshold d
        \<or> ks_drift \<or> drift_detected (adwin_detectors d ! i))"
      by simp
    have "feature_loop t d ref (current_features d) (i # rest) (s, a, f)
        = feature_loop t d ref (current_features d) rest
            (s, a, f @ [feature_signal t d ref i])"
      unfolding sig using c by (simp add: rf cf ks i Let_def)
    with assms False show ?thesis by simp
  qed
qed

lemma feature_loop_result:
  "feature_loop t d ref (current_features d) is (s, a, f) = Inr (s', a', f') \<Longrightarrow>
   s' = s @ map (\<lambda>i. feature_drift_score (feature_signal t d ref i))
              (filter (feature_is_affected t d ref) is) \<and>
   a' = a @ filter (feature_is_affected t d ref) is \<and>
   f' = f @ map (feature_signal t d ref) is"
proof (induction "is" arbitrary: s a f)
  case Nil
  then show ?case by simp
next
  case (Cons i rest)
  note step = feature_loop_step[OF Cons.prems]
  show ?case
  proof (cases "feature_is_affected t d ref i")
    case True
    with step have "feature_loop t d ref (current_features d) rest
           (s @ [feature_drift_score (feature_signal t d ref i)], a @ [i],
            f @ [feature_signal t d ref i]) = Inr (s', a', f')"
      by simp
    from Cons.IH[OF this] True show ?thesis by simp
  next
    case False
    with step have "feature_loop t d ref (current_features d) rest
           (s, a, f @ [feature_signal t d ref i]) = Inr (s', a', f')"
      by simp
    from Cons.IH[OF this] False show ?thesis by simp
  qed
qed

lemma feature_loop_returns:
  assumes "list_all (\<lambda>i. i < ncols ref \<and> i < ncols cur \<and> i < length (adwin_detectors d)) is"
  shows "\<exists>r. feature_loop t d ref cur is (s, a, f) = Inr r"
  using assms
proof (induction "is" arbitrary: s a f)
  case Nil
  then show ?case by simp
next
  case (Cons i rest)
  obtain ks_stat ks_pval ks_drift where ks:
    "kolmogorov_smirnov_test t (map (\<lambda>r. r ! i) ref) (map (\<lambda>r. r ! i) cur)
       = (ks_stat, ks_pval, ks_drift)"
    by (cases "kolmogorov_smirnov_test t (map (\<lambda>r. r ! i) ref) (map (\<lambda>r. r ! i) cur)") auto
  from Cons.prems have "list_all (\<lambda>i. i < ncols ref \<and> i < ncols cur \<and> i < length (adwin_detectors d)) rest"
    by simp
  from Cons.IH[OF this] Cons.prems show ?case
    by (simp add: column_def ks Let_def)
qed

subsection \<open>The result of a full run\<close>

lemma detect_drift_full:
  assumes "reference_features d = Some ref"
    and "30 \<le> length (current_features d)"
    and "detect_drift t d = Inr (res, d')"
  shows "res =
     \<lparr>result_drift_score = clamp_score (mean_or_zero t (contributing_scores t d ref)),
      drift_type = classify_drift_type
         \<lparr>feature_drift = map (feature_signal t d ref) [0 ..< n_features d],
          prediction_drift = prediction_signal t d, concept_drift = concept_signal t d\<rparr>
         (filter (feature_is_affected t d ref) [0 ..< n_features d]),
      severity = classify_severity (clamp_score (mean_or_zero t (contributing_scores t d ref))),
      affected_features = filter (feature_is_affected t d ref) [0 ..< n_features d],
      result_details = SignalDetails
         \<lparr>feature_drift = map (feature_signal t d ref) [0 ..< n_features d],
          prediction_drift = prediction_signal t d, concept_drift = concept_signal t d\<rparr>,
      recommended_action = Some (get_recommendation
         (clamp_score (mean_or_zero t (contributing_scores t d ref)))
         (classify_severity (clamp_score (mean_or_zero t (contributing_scores t d ref)))))\<rparr>"
proof -
  from assms have rect: "\<not> (\<not> rectangular (current_features d) \<or> \<not> rectangular ref)"
    by (auto simp: detect_drift_def split: if_splits)
  from assms rect obtain s1 aff fds where
    loop: "feature_loop t d ref (current_features d) [0 ..< n_features d] ([], [], [])
             = Inr (s1, aff, fds)"
    by (cases "feature_loop t d ref (current_features d) [0 ..< n_features d] ([], [], [])")
       (auto simp: detect_drift_def)
  from feature_loop_result[OF loop] have
    s1: "s1 = map (\<lambda>i. feature_drift_score (feature_signal t d ref i))
                (filter (feature_is_affected t d ref) [0 ..< n_features d])" and
    aff: "aff = filter (feature_is_affected t d ref) [0 ..< n_features d]" and
    fds: "fds = map (feature_signal t d ref) [0 ..< n_features d]"
    by simp_all
  let ?pred = "prediction_signal t d"
  let ?conc = "concept_signal t d"
  let ?det = "\<lparr>feature_drift = fds, prediction_drift = ?pred, concept_drift = ?conc\<rparr>"
  have scores: "(case ?conc of
                   Some c \<Rightarrow> (case ?pred of Some p \<Rightarrow> s1 @ [prediction_drift_score p]
                                | None \<Rightarrow> s1) @ [concept_drift_score c]
                 | None \<Rightarrow> (case ?pred of Some p \<Rightarrow> s1 @ [prediction_drift_score p]
                                | None \<Rightarrow> s1)) = contributing_scores t d ref"
    unfolding contributing_scores_def s1 by (cases ?pred; cases ?conc) simp_all
  have "detect_drift t d =
     (let overall = clamp_score (mean_or_zero t (contributing_scores t d ref));
          sev = classify_severity overall;
          result = \<lparr>result_drift_score = overall,
                    drift_type = classify_drift_type ?det aff,
                    severity = sev, affected_features = aff,
                    result_details = SignalDetails ?det,
                    recommended_action = Some (get_recommendation overall sev)\<rparr>
      in Inr (result, d\<lparr>drift_history := drift_history d @ [result]\<rparr>))"
    using assms(1,2) rect loop scores
    unfolding detect_drift_def prediction_signal_def[symmetric] concept_signal_def[symmetric]
    by (simp add: Let_def)
  with assms(3) show ?thesis unfolding aff fds by (simp add: Let_def)
qed

lemma detect_drift_returns:
  assumes "reference_features d = Some ref"
    and "30 \<le> length (current_features d)"
    and "rectangular (current_features d)" "rectangular ref"
    and "n_features d \<le> ncols ref" "n_features d \<le> ncols (current_features d)"
    and "n_features d \<le> length (adwin_detectors d)"
  shows "\<exists>res d'. detect_drift t d = Inr (res, d')"
proof -
  from assms(5-7) have
    "list_all (\<lambda>i. i < ncols ref \<and> i < ncols (current_features d)
                \<and> i < length (adwin_detectors d)) [0 ..< n_features d]"
    by (simp add: list_all_iff)
  from feature_loop_returns[OF this, of t "[]" "[]" "[]"] obtain s1 aff fds where
    "feature_loop t d ref (current_features d) [0 ..< n_features d] ([], [], [])
       = Inr (s1, aff, fds)"
    by (metis prod_cases3)
  with assms(1-4) show ?thesis
    by (simp add: detect_drift_def Let_def)
qed

lemma clamp_score_range: "0 \<le> clamp_score x \<and> clamp_score x \<le> 100"
  by (simp add: clamp_score_def)

subsection \<open>The example engines are reached through \<open>add_sample\<close>\<close>

lemma add_element_constant_sample:
  "add_element (sample_tests s) (constant_window (1 / 500) c k) c
     = Inr (False, constant_window (1 / 500) c (Suc k))"
  by (rule add_element_constant[OF sample_tests_mean_replicate]) simp

lemma add_sample_steady:
  assumes "Suc n \<le> 100"
  shows "add_sample (sample_tests s) (steady_state n ls) [2] (Some l) None 0
           = Inr (steady_state (Suc n) (ls @ [l]))"
proof -
  note step = add_element_constant_sample
  have rep: "replicate n [2::real] @ ([2] # []) = [2] # replicate n [2]"
    by (simp add: replicate_append_same)
  show ?thesis
    using assms
    by (simp add: add_sample_def steady_state_def step rep Let_def)
qed

lemma add_labelled_steady:
  "n + length new \<le> 100 \<Longrightarrow>
   add_labelled (sample_tests s) (steady_state n ls) 2 new
     = Inr (steady_state (n + length new) (ls @ new))"
proof (induction new arbitrary: n ls)
  case Nil
  then show ?case by simp
next
  case (Cons l new)
  then have "Suc n \<le> 100" "Suc n + length new \<le> 100" by simp_all
  with Cons.IH[of "Suc n" "ls @ [l]"] show ?case
    by (simp add: add_sample_steady)
qed

lemma steady_detector_reached:
  assumes "length ls = 30"
  shows "add_labelled (sample_tests s)
           (set_reference (DriftDetector_init 1) (replicate 30 [2])
              (Some (replicate 15 0 @ replicate 15 1)) None) 2 ls
         = Inr (steady_detector ls)"
proof -
  have "set_reference (DriftDetector_init 1) (replicate 30 [2])
          (Some (replicate 15 0 @ replicate 15 1)) None = steady_state 0 []"
    by (simp add: set_reference_def DriftDetector_init_def steady_state_def
        ADWIN_init_def constant_window_def numeral_2_eq_2)
  with add_labelled_steady[of 0 ls s "[]"] assms show ?thesis
    by (simp add: steady_detector_def)
qed

lemma add_sample_paired:
  assumes "Suc n \<le> 100"
  shows "add_sample (sample_tests s) (paired_state n) [2, 2] (Some 1) (Some 1) 0
           = Inr (paired_state (Suc n))"
proof -
  note step = add_element_constant_sample
  have rep: "replicate n [2::real, 2] @ ([2, 2] # []) = [2, 2] # replicate n [2, 2]"
    "replicate n (1::real) @ [1] = 1 # replicate n 1"
    by (simp_all add: replicate_append_same)
  show ?thesis
    using assms
    by (simp add: add_sample_def paired_state_def step rep Let_def)
qed

lemma add_samples_paired:
  "n + m \<le> 100 \<Longrightarrow>
   add_samples (sample_tests s) (paired_state n) (replicate m ([2, 2], Some 1, Some 1, 0))
     = Inr (paired_state (n + m))"
proof (induction m arbitrary: n)
  case 0
  then show ?case by simp
next
  case (Suc m)
  then have "Suc n \<le> 100" "Suc n + m \<le> 100" by simp_all
  with Suc.IH[of "Suc n"] show ?case
    by (simp add: add_sample_paired)
qed

lemma paired_state_reached:
  "add_samples (sample_tests s)
     (set_reference (DriftDetector_init 2) (replicate 30 [2, 5])
        (Some (replicate 15 0 @ replicate 15 1)) (Some (replicate 30 1)))
     (replicate 30 ([2, 2], Some 1, Some 1, 0))
   = Inr (paired_state 30)"
proof -
  have "set_reference (DriftDetector_init 2) (replicate 30 [2, 5])
          (Some (replicate 15 0 @ replicate 15 1)) (Some (replicate 30 1)) = paired_state 0"
    by (simp add: set_reference_def DriftDetector_init_def paired_state_def
        ADWIN_init_def constant_window_def numeral_3_eq_3)
  with add_samples_paired[of 0 30 s] show ?thesis by simp
qed

subsection \<open>Example runs\<close>

lemma steady_features_loop:
  "feature_loop (sample_tests s) (steady_detector ls)
     (replicate 30 [2]) (replicate 30 [2]) [0 ..< 1]
     ([], [], [])
   = Inr ([], [], [\<lparr>feature_index = 0, psi = 0, ks_statistic = 0, ks_pvalue = 1, kl_div = 0,
                     adwin_drift = False, feature_drift_score = 0\<rparr>])"
  by (simp add: sample_tests_def steady_detector_def steady_state_def column_def ncols_replicate
      kolmogorov_smirnov_test_def Let_def constant_window_def)

lemma ln_8_7_bounds: "0 < ln (8 / 7 :: real)" "ln (8 / 7 :: real) \<le> 1 / 7"
proof -
  show "0 < ln (8 / 7 :: real)" by (simp add: ln_gt_zero)
  have "ln (1 + 1 / 7 :: real) \<le> 1 / 7" by (rule ln_add_one_self_le_self) simp
  then show "ln (8 / 7 :: real) \<le> 1 / 7" by simp
qed

lemma steady_rectangular: "rectangular (replicate 30 [2])"
  by (simp add: rectangular_def ncols_replicate list_all_iff)

lemma steady_detect_drift:
  assumes "ls \<noteq> []" "ls \<noteq> replicate 15 0 @ replicate 15 1"
  shows "map_sum id fst (detect_drift (sample_tests s) (steady_detector ls)) =
     Inr \<lparr>result_drift_score = clamp_score (s / (2 / 10) * 100),
          drift_type = ''none'',
          severity = classify_severity (clamp_score (s / (2 / 10) * 100)),
          affected_features = [],
          result_details = SignalDetails
            \<lparr>feature_drift =
               [\<lparr>feature_index = 0, psi = 0, ks_statistic = 0, ks_pvalue = 1, kl_div = 0,
                 adwin_drift = False, feature_drift_score = 0\<rparr>],
             prediction_drift = None,
             concept_drift = Some \<lparr>concept_psi = s, concept_drift_score = s / (2 / 10) * 100\<rparr>\<rparr>,
          recommended_action = Some (get_recommendation (clamp_score (s / (2 / 10) * 100))
             (classify_severity (clamp_score (s / (2 / 10) * 100))))\<rparr>"
proof -
  have loop: "feature_loop (sample_tests s) (steady_detector ls)
     (replicate 30 [2]) (current_features (steady_detector ls))
     [0 ..< n_features (steady_detector ls)] ([], [], [])
   = Inr ([], [], [\<lparr>feature_index = 0, psi = 0, ks_statistic = 0, ks_pvalue = 1, kl_div = 0,
                     adwin_drift = False, feature_drift_score = 0\<rparr>])"
    using steady_features_loop[of s ls] by (simp add: steady_detector_def steady_state_def)
  have fields: "reference_features (steady_detector ls) = Some (replicate 30 [2])"
    "length (current_features (steady_detector ls)) = 30"
    "rectangular (current_features (steady_detector ls))"
    "reference_predictions (steady_detector ls) = None"
    "reference_labels (steady_detector ls) = Some (replicate 15 0 @ replicate 15 1)"
    "current_labels (steady_detector ls) = ls"
    using steady_rectangular by (simp_all add: steady_detector_def steady_state_def)
  have p: "population_stability_index (sample_tests s) (replicate 15 0 @ replicate 15 1) ls = s"
    using assms(2) by (auto simp: sample_tests_def)
  show ?thesis
    unfolding detect_drift_def
    using assms(1)
    by (simp add: fields loop steady_rectangular p Let_def mean_or_zero_def
        sample_tests_mean_single classify_drift_type_def)
qed

lemma labels_14_16: "replicate 14 0 @ replicate 16 1 \<noteq> replicate 15 0 @ replicate 15 (1::real)"
proof
  assume "replicate 14 0 @ replicate 16 1 = replicate 15 0 @ replicate 15 (1::real)"
  then have "sum_list (replicate 14 0 @ replicate 16 1)
      = sum_list (replicate 15 0 @ replicate 15 (1::real))"
    by simp
  then show False by (simp add: sum_list_replicate)
qed

lemma labels_30: "replicate 30 1 \<noteq> replicate 15 0 @ replicate 15 (1::real)"
proof
  assume "replicate 30 1 = replicate 15 0 @ replicate 15 (1::real)"
  then have "sum_list (replicate 30 1) = sum_list (replicate 15 0 @ replicate 15 (1::real))"
    by simp
  then show False by (simp add: sum_list_replicate)
qed

lemma ln_5000_ge_1: "1 \<le> ln (5000 :: real)"
proof -
  have "exp (1::real) \<le> 3" by (rule exp_le)
  then have "exp (1::real) \<le> 5000" by simp
  then show ?thesis by (simp add: ln_ge_iff)
qed

lemma big_label_psi: "2 / 10 < 4999 / 10000 * ln (5000 :: real) + ln 2 / 2"
proof -
  have a: "0 < ln (2 :: real)" by simp
  have "4999 / 10000 * (1::real) \<le> 4999 / 10000 * ln 5000"
    using ln_5000_ge_1 by (intro mult_left_mono) simp_all
  with a show ?thesis by linarith
qed

lemma replicate_5_2: "replicate 30 (5::real) \<noteq> replicate 30 2"
proof
  assume "replicate 30 (5::real) = replicate 30 2"
  then have "sum_list (replicate 30 (5::real)) = sum_list (replicate 30 2)"
    by simp
  then show False by (simp add: sum_list_replicate)
qed

lemma paired_signals:
  "feature_signal (sample_tests (1 / 4)) (paired_state 30) (replicate 30 [2, 5]) 0
     = \<lparr>feature_index = 0, psi = 0, ks_statistic = 0, ks_pvalue = 1, kl_div = 0,
        adwin_drift = False, feature_drift_score = 0\<rparr>"
  "feature_signal (sample_tests (1 / 4)) (paired_state 30) (replicate 30 [2, 5]) (Suc 0)
     = \<lparr>feature_index = Suc 0, psi = 1 / 4, ks_statistic = 1, ks_pvalue = 0, kl_div = 1 / 4,
        adwin_drift = False, feature_drift_score = 125 / 2\<rparr>"
  "\<not> feature_is_affected (sample_tests (1 / 4)) (paired_state 30) (replicate 30 [2, 5]) 0"
  "feature_is_affected (sample_tests (1 / 4)) (paired_state 30) (replicate 30 [2, 5]) (Suc 0)"
  "prediction_signal (sample_tests (1 / 4)) (paired_state 30)
     = Some \<lparr>prediction_psi = 0, prediction_ks_statistic = 0, prediction_drift_score = 0\<rparr>"
  "concept_signal (sample_tests (1 / 4)) (paired_state 30)
     = Some \<lparr>concept_psi = 1 / 4, concept_drift_score = 125\<rparr>"
  using replicate_5_2 labels_30[THEN not_sym]
  by (simp_all add: feature_signal_def feature_is_affected_def prediction_signal_def
      concept_signal_def sample_tests_def paired_state_def kolmogorov_smirnov_test_def
      constant_window_def Let_def)

lemma paired_contributing:
  "contributing_scores (sample_tests (1 / 4)) (paired_state 30) (replicate 30 [2, 5])
     = [125 / 2, 0, 125]"
proof -
  have n: "n_features (paired_state 30) = 2" by (simp add: paired_state_def)
  have u: "[0 ..< 2] = [0, Suc 0]" by (simp add: upt_rec numeral_2_eq_2)
  show ?thesis unfolding contributing_scores_def n u by (simp add: paired_signals)
qed

text \<open>
  C4 (as stated).  After \<open>set_reference\<close> and thirty samples (\<open>steady_detector_reached\<close>)
  the feature is unchanged and the labels have moved from 15 of 30 to 16 of 30 ones: the
  PSI of the labels is \<open>ln (8 / 7) / 30\<close> and the concept score 500 times that.  The one
  feature is not affected, its score 0 is computed, and the engine's mean is over the
  concept score alone, twice the mean over both signals.
\<close>

theorem unaffected_feature_left_out_of_mean:
  "map_sum id (result_drift_score \<circ> fst)
     (detect_drift (sample_tests (ln (8 / 7) / 30))
        (steady_detector (replicate 14 0 @ replicate 16 1)))
     = Inr (50 / 3 * ln (8 / 7)) \<and>
   map_sum id (result_details \<circ> fst)
     (detect_drift (sample_tests (ln (8 / 7) / 30))
        (steady_detector (replicate 14 0 @ replicate 16 1)))
     = Inr (SignalDetails
         \<lparr>feature_drift =
            [\<lparr>feature_index = 0, psi = 0, ks_statistic = 0, ks_pvalue = 1, kl_div = 0,
              adwin_drift = False, feature_drift_score = 0\<rparr>],
          prediction_drift = None,
          concept_drift = Some \<lparr>concept_psi = ln (8 / 7) / 30,
                                concept_drift_score = 50 / 3 * ln (8 / 7)\<rparr>\<rparr>) \<and>
   spec_overall_score (sample_tests (ln (8 / 7) / 30))
     \<lparr>feature_drift =
        [\<lparr>feature_index = 0, psi = 0, ks_statistic = 0, ks_pvalue = 1, kl_div = 0,
          adwin_drift = False, feature_drift_score = 0\<rparr>],
      prediction_drift = None,
      concept_drift = Some \<lparr>concept_psi = ln (8 / 7) / 30,
                            concept_drift_score = 50 / 3 * ln (8 / 7)\<rparr>\<rparr>
     = 25 / 3 * ln (8 / 7) \<and>
   25 / 3 * ln (8 / 7 :: real) < 50 / 3 * ln (8 / 7)"
proof -
  let ?ls = "replicate 14 0 @ replicate 16 (1::real)"
  let ?s = "ln (8 / 7) / 30 :: real"
  have ne: "?ls \<noteq> []" by simp
  have c: "clamp_score (?s / (2 / 10) * 100) = 50 / 3 * ln (8 / 7)"
    using ln_8_7_bounds by (simp add: clamp_score_def)
  have v: "?s / (2 / 10) * 100 = 50 / 3 * ln (8 / 7)" by simp
  have c2: "clamp_score (25 / 3 * ln (8 / 7)) = 25 / 3 * ln (8 / 7)"
    using ln_8_7_bounds by (simp add: clamp_score_def)
  have r: "map_sum id fst (detect_drift (sample_tests ?s) (steady_detector ?ls)) = Inr
     \<lparr>result_drift_score = 50 / 3 * ln (8 / 7),
          drift_type = ''none'',
          severity = classify_severity (50 / 3 * ln (8 / 7)),
          affected_features = [],
          result_details = SignalDetails
            \<lparr>feature_drift =
               [\<lparr>feature_index = 0, psi = 0, ks_statistic = 0, ks_pvalue = 1, kl_div = 0,
                 adwin_drift = False, feature_drift_score = 0\<rparr>],
             prediction_drift = None,
             concept_drift = Some \<lparr>concept_psi = ?s, concept_drift_score = 50 / 3 * ln (8 / 7)\<rparr>\<rparr>,
          recommended_action = Some (get_recommendation (50 / 3 * ln (8 / 7))
             (classify_severity (50 / 3 * ln (8 / 7))))\<rparr>"
    using steady_detect_drift[OF ne labels_14_16, of ?s, unfolded c, unfolded v] .
  have 1: "map_sum id (result_drift_score \<circ> fst) (detect_drift (sample_tests ?s) (steady_detector ?ls))
        = Inr (50 / 3 * ln (8 / 7))"
    using r by (cases "detect_drift (sample_tests ?s) (steady_detector ?ls)") auto
  have 2: "map_sum id (result_details \<circ> fst) (detect_drift (sample_tests ?s) (steady_detector ?ls))
        = Inr (SignalDetails
         \<lparr>feature_drift =
            [\<lparr>feature_index = 0, psi = 0, ks_statistic = 0, ks_pvalue = 1, kl_div = 0,
              adwin_drift = False, feature_drift_score = 0\<rparr>],
          prediction_drift = None,
          concept_drift = Some \<lparr>concept_psi = ?s,
                                concept_drift_score = 50 / 3 * ln (8 / 7)\<rparr>\<rparr>)"
    using r by (cases "detect_drift (sample_tests ?s) (steady_detector ?ls)") auto
  have 3: "spec_overall_score (sample_tests ?s)
     \<lparr>feature_drift =
        [\<lparr>feature_index = 0, psi = 0, ks_statistic = 0, ks_pvalue = 1, kl_div = 0,
          adwin_drift = False, feature_drift_score = 0\<rparr>],
      prediction_drift = None,
      concept_drift = Some \<lparr>concept_psi = ?s,
                            concept_drift_score = 50 / 3 * ln (8 / 7)\<rparr>\<rparr>
     = 25 / 3 * ln (8 / 7)"
    using c2 by (simp add: spec_overall_score_def mean_or_zero_def sample_tests_def exact_numpy_def)
  have 4: "25 / 3 * ln (8 / 7 :: real) < 50 / 3 * ln (8 / 7)"
    using ln_8_7_bounds by simp
  from 1 2 3 4 show ?thesis by blast
qed

text \<open>
  C4 (amended).  With a reference set and at least 30 current samples, \<open>detect_drift\<close>
  returns a result whenever the matrices are rectangular with at least \<open>n_features\<close>
  columns and there is a detector per feature.  In every result it returns, the affected
  features are exactly the features whose PSI exceeds the threshold, whose KS test
  fires or whose detector has its flag up; the details hold the entry of every feature,
  the prediction entry exactly when reference and current predictions are there, and the
  concept entry exactly when reference and current labels are there; and the overall
  score is \<open>np.mean\<close> (0 when nothing contributes) of the feature scores of the affected
  features only, then the prediction-drift score when it was computed, then the
  concept-drift score when it was computed, clamped to \<open>[0, 100]\<close>.
\<close>

theorem overall_score_mean_of_affected_signals:
  assumes "reference_features d = Some ref"
    and "30 \<le> length (current_features d)"
  shows "(rectangular (current_features d) \<and> rectangular ref \<and> n_features d \<le> ncols ref \<and>
          n_features d \<le> ncols (current_features d) \<and>
          n_features d \<le> length (adwin_detectors d)
            \<longrightarrow> (\<exists>res d'. detect_drift t d = Inr (res, d'))) \<and>
         (\<forall>res d'. detect_drift t d = Inr (res, d')
            \<longrightarrow> affected_features res
                  = filter (\<lambda>i. psi (feature_signal t d ref i) > drift_threshold d \<or>
                                ks_pvalue (feature_signal t d ref i) < 5 / 100 \<or>
                                adwin_drift (feature_signal t d ref i))
                      [0 ..< n_features d] \<and>
                result_details res
                  = SignalDetails
                      \<lparr>feature_drift = map (feature_signal t d ref) [0 ..< n_features d],
                       prediction_drift = prediction_signal t d,
                       concept_drift = concept_signal t d\<rparr> \<and>
                (prediction_signal t d \<noteq> None \<longleftrightarrow>
                   reference_predictions d \<noteq> None \<and> current_predictions d \<noteq> []) \<and>
                (concept_signal t d \<noteq> None \<longleftrightarrow>
                   reference_labels d \<noteq> None \<and> current_labels d \<noteq> []) \<and>
                result_drift_score res
                  = clamp_score (mean_or_zero t
                      (map (\<lambda>i. feature_drift_score (feature_signal t d ref i))
                         (affected_features res)
                       @ (case prediction_signal t d of
                            Some p \<Rightarrow> [prediction_drift_score p] | None \<Rightarrow> [])
                       @ (case concept_signal t d of
                            Some c \<Rightarrow> [concept_drift_score c] | None \<Rightarrow> []))) \<and>
                0 \<le> result_drift_score res \<and> result_drift_score res \<le> 100)"
proof (intro conjI impI allI)
  assume "rectangular (current_features d) \<and> rectangular ref \<and> n_features d \<le> ncols ref \<and>
          n_features d \<le> ncols (current_features d) \<and>
          n_features d \<le> length (adwin_detectors d)"
  then show "\<exists>res d'. detect_drift t d = Inr (res, d')"
    using detect_drift_returns[OF assms, of t] by blast
next
  fix res d'
  assume run: "detect_drift t d = Inr (res, d')"
  note full = detect_drift_full[OF assms run]
  have f: "feature_is_affected t d ref
             = (\<lambda>i. psi (feature_signal t d ref i) > drift_threshold d \<or>
                     ks_pvalue (feature_signal t d ref i) < 5 / 100 \<or>
                     adwin_drift (feature_signal t d ref i))"
    by (rule ext) (rule feature_is_affected_iff)
  have aff: "affected_features res = filter (feature_is_affected t d ref) [0 ..< n_features d]"
    by (subst full) simp
  show "affected_features res
          = filter (\<lambda>i. psi (feature_signal t d ref i) > drift_threshold d \<or>
                        ks_pvalue (feature_signal t d ref i) < 5 / 100 \<or>
                        adwin_drift (feature_signal t d ref i))
              [0 ..< n_features d]"
    using aff unfolding f .
  show "result_details res
          = SignalDetails
              \<lparr>feature_drift = map (feature_signal t d ref) [0 ..< n_features d],
               prediction_drift = prediction_signal t d,
               concept_drift = concept_signal t d\<rparr>"
    by (subst full) simp
  show "prediction_signal t d \<noteq> None \<longleftrightarrow>
          reference_predictions d \<noteq> None \<and> current_predictions d \<noteq> []"
    by (cases "reference_predictions d")
       (simp_all add: prediction_signal_def Let_def split: prod.splits)
  show "concept_signal t d \<noteq> None \<longleftrightarrow>
          reference_labels d \<noteq> None \<and> current_labels d \<noteq> []"
    by (cases "reference_labels d") (simp_all add: concept_signal_def Let_def)
  have score: "result_drift_score res = clamp_score (mean_or_zero t (contributing_scores t d ref))"
    by (subst full) simp
  show "result_drift_score res
          = clamp_score (mean_or_zero t
              (map (\<lambda>i. feature_drift_score (feature_signal t d ref i))
                 (affected_features res)
               @ (case prediction_signal t d of
                    Some p \<Rightarrow> [prediction_drift_score p] | None \<Rightarrow> [])
               @ (case concept_signal t d of
                    Some c \<Rightarrow> [concept_drift_score c] | None \<Rightarrow> [])))"
    unfolding score aff contributing_scores_def ..
  show "0 \<le> result_drift_score res" "result_drift_score res \<le> 100"
    unfolding score using clamp_score_range by simp_all
qed

text \<open>
  The engine for two features (\<open>paired_state_reached\<close>) with a PSI of 0.25 between unequal
  samples: the first feature is not affected and its score 0 stays out, the second is and
  scores 62.5, the predictions score 0 and the labels 125; the overall score is their mean.
\<close>

theorem overall_score_mean_of_affected_signals_witness:
  "map_sum id (\<lambda>out. (affected_features (fst out), result_drift_score (fst out),
                       result_details (fst out)))
     (detect_drift (sample_tests (1 / 4)) (paired_state 30))
   = Inr ([1], 125 / 2,
          SignalDetails
            \<lparr>feature_drift =
               [\<lparr>feature_index = 0, psi = 0, ks_statistic = 0, ks_pvalue = 1, kl_div = 0,
                 adwin_drift = False, feature_drift_score = 0\<rparr>,
                \<lparr>feature_index = 1, psi = 1 / 4, ks_statistic = 1, ks_pvalue = 0,
                 kl_div = 1 / 4, adwin_drift = False, feature_drift_score = 125 / 2\<rparr>],
             prediction_drift = Some \<lparr>prediction_psi = 0, prediction_ks_statistic = 0,
                                      prediction_drift_score = 0\<rparr>,
             concept_drift = Some \<lparr>concept_psi = 1 / 4, concept_drift_score = 125\<rparr>\<rparr>)"
proof -
  let ?d = "paired_state 30"
  let ?ref = "replicate 30 [2::real, 5]"
  let ?t = "sample_tests (1 / 4)"
  have a: "reference_features ?d = Some ?ref" by (simp add: paired_state_def)
  have b: "30 \<le> length (current_features ?d)" by (simp add: paired_state_def)
  have rect: "rectangular (replicate 30 [2::real, 5])" "rectangular (replicate 30 [2::real, 2])"
    by (simp_all add: rectangular_def ncols_replicate list_all_iff)
  have c: "rectangular (current_features ?d) \<and> rectangular ?ref \<and> n_features ?d \<le> ncols ?ref \<and>
          n_features ?d \<le> ncols (current_features ?d) \<and>
          n_features ?d \<le> length (adwin_detectors ?d)"
    using rect by (simp add: paired_state_def ncols_replicate)
  note main = overall_score_mean_of_affected_signals[OF a b, of ?t]
  from main c obtain res d' where run: "detect_drift ?t ?d = Inr (res, d')"
    by blast
  have n: "n_features ?d = 2" by (simp add: paired_state_def)
  have u: "[0 ..< 2] = [0, Suc 0]" by (simp add: upt_rec numeral_2_eq_2)
  have thr: "drift_threshold ?d = 2 / 10" by (simp add: paired_state_def)
  from main run have aff: "affected_features res
      = filter (\<lambda>i. psi (feature_signal ?t ?d ?ref i) > drift_threshold ?d \<or>
                    ks_pvalue (feature_signal ?t ?d ?ref i) < 5 / 100 \<or>
                    adwin_drift (feature_signal ?t ?d ?ref i)) [0 ..< n_features ?d]"
    by blast
  then have aff1: "affected_features res = [Suc 0]"
    unfolding n u by (simp add: paired_signals thr)
  from main run have det: "result_details res
      = SignalDetails
          \<lparr>feature_drift = map (feature_signal ?t ?d ?ref) [0 ..< n_features ?d],
           prediction_drift = prediction_signal ?t ?d,
           concept_drift = concept_signal ?t ?d\<rparr>"
    by blast
  from main run have "result_drift_score res
      = clamp_score (mean_or_zero ?t
          (map (\<lambda>i. feature_drift_score (feature_signal ?t ?d ?ref i)) (affected_features res)
           @ (case prediction_signal ?t ?d of
                Some p \<Rightarrow> [prediction_drift_score p] | None \<Rightarrow> [])
           @ (case concept_signal ?t ?d of
                Some c \<Rightarrow> [concept_drift_score c] | None \<Rightarrow> [])))"
    by blast
  then have score: "result_drift_score res = 125 / 2"
    unfolding aff1
    by (simp add: paired_signals mean_or_zero_def sample_tests_mean exact_numpy_def
        clamp_score_def)
  from run aff1 score det show ?thesis
    unfolding n u by (simp add: paired_signals)
qed

text \<open>
  C5 (as stated).  The same engine with the labels moved from 15 of 30 ones to 30 of 30:
  the PSI of the labels, \<open>0.4999 ln 5000 + 0.5 ln 2\<close>, is far above 0.2, no feature is
  affected, and the drift type is \<open>none\<close> where the stated order gives \<open>concept_drift\<close>.
\<close>

theorem concept_drift_not_reported_without_affected_feature:
  "map_sum id (drift_type \<circ> fst)
     (detect_drift (sample_tests (4999 / 10000 * ln 5000 + ln 2 / 2))
        (steady_detector (replicate 30 1))) = Inr ''none'' \<and>
   spec_drift_type
     \<lparr>feature_drift =
        [\<lparr>feature_index = 0, psi = 0, ks_statistic = 0, ks_pvalue = 1, kl_div = 0,
          adwin_drift = False, feature_drift_score = 0\<rparr>],
      prediction_drift = None,
      concept_drift = Some \<lparr>concept_psi = 4999 / 10000 * ln 5000 + ln 2 / 2,
                            concept_drift_score
                              = (4999 / 10000 * ln 5000 + ln 2 / 2) / (2 / 10) * 100\<rparr>\<rparr> []
     = ''concept_drift'' \<and>
   map_sum id (result_details \<circ> fst)
     (detect_drift (sample_tests (4999 / 10000 * ln 5000 + ln 2 / 2))
        (steady_detector (replicate 30 1)))
     = Inr (SignalDetails
     \<lparr>feature_drift =
        [\<lparr>feature_index = 0, psi = 0, ks_statistic = 0, ks_pvalue = 1, kl_div = 0,
          adwin_drift = False, feature_drift_score = 0\<rparr>],
      prediction_drift = None,
      concept_drift = Some \<lparr>concept_psi = 4999 / 10000 * ln 5000 + ln 2 / 2,
                            concept_drift_score
                              = (4999 / 10000 * ln 5000 + ln 2 / 2) / (2 / 10) * 100\<rparr>\<rparr>)"
proof -
  let ?ls = "replicate 30 (1::real)"
  let ?s = "4999 / 10000 * ln 5000 + ln 2 / 2 :: real"
  let ?run = "detect_drift (sample_tests ?s) (steady_detector ?ls)"
  have ne: "?ls \<noteq> []" by simp
  note r = steady_detect_drift[OF ne labels_30, of ?s]
  have 1: "map_sum id (drift_type \<circ> fst) ?run = Inr ''none''"
    using r by (cases ?run) auto
  have 2: "map_sum id (result_details \<circ> fst) ?run = Inr (SignalDetails
     \<lparr>feature_drift =
        [\<lparr>feature_index = 0, psi = 0, ks_statistic = 0, ks_pvalue = 1, kl_div = 0,
          adwin_drift = False, feature_drift_score = 0\<rparr>],
      prediction_drift = None,
      concept_drift = Some \<lparr>concept_psi = ?s, concept_drift_score = ?s / (2 / 10) * 100\<rparr>\<rparr>)"
    using r by (cases ?run) auto
  have 3: "spec_drift_type
     \<lparr>feature_drift =
        [\<lparr>feature_index = 0, psi = 0, ks_statistic = 0, ks_pvalue = 1, kl_div = 0,
          adwin_drift = False, feature_drift_score = 0\<rparr>],
      prediction_drift = None,
      concept_drift = Some \<lparr>concept_psi = ?s, concept_drift_score = ?s / (2 / 10) * 100\<rparr>\<rparr> []
     = ''concept_drift''"
    using big_label_psi by (simp add: spec_drift_type_def)
  from 1 2 3 show ?thesis by blast
qed

text \<open>
  C5 (amended).  In every result of a full run the drift type is \<open>none\<close> when no feature is
  affected; when at least one feature is affected it is \<open>concept_drift\<close> if the
  label-stream PSI was computed and exceeds 0.2, otherwise \<open>prediction_drift\<close> if the
  prediction-stream PSI was computed and exceeds 0.2, otherwise \<open>data_drift\<close>.
\<close>

theorem drift_type_guarded_by_affected_features:
  assumes "reference_features d = Some ref"
    and "30 \<le> length (current_features d)"
    and "detect_drift t d = Inr (res, d')"
  shows "\<exists>det. result_details res = SignalDetails det \<and>
           drift_type res =
             (if affected_features res = [] then ''none''
              else if (case concept_drift det of
                         Some c \<Rightarrow> concept_psi c > 2 / 10 | None \<Rightarrow> False)
                   then ''concept_drift''
              else if (case prediction_drift det of
                         Some p \<Rightarrow> prediction_psi p > 2 / 10 | None \<Rightarrow> False)
                   then ''prediction_drift''
              else ''data_drift'')"
proof -
  note full = detect_drift_full[OF assms]
  let ?det = "\<lparr>feature_drift = map (feature_signal t d ref) [0 ..< n_features d],
               prediction_drift = prediction_signal t d, concept_drift = concept_signal t d\<rparr>"
  have det: "result_details res = SignalDetails ?det" by (subst full) simp
  have aff: "affected_features res = filter (feature_is_affected t d ref) [0 ..< n_features d]"
    by (subst full) simp
  have "drift_type res = classify_drift_type ?det
          (filter (feature_is_affected t d ref) [0 ..< n_features d])"
    by (subst full) simp
  then have "drift_type res = classify_drift_type ?det (affected_features res)"
    unfolding aff .
  then have "drift_type res =
             (if affected_features res = [] then ''none''
              else if (case concept_drift ?det of
                         Some c \<Rightarrow> concept_psi c > 2 / 10 | None \<Rightarrow> False)
                   then ''concept_drift''
              else if (case prediction_drift ?det of
                         Some p \<Rightarrow> prediction_psi p > 2 / 10 | None \<Rightarrow> False)
                   then ''prediction_drift''
              else ''data_drift'')"
    by (simp add: classify_drift_type_def)
  with det show ?thesis by blast
qed

text \<open>A run with the feature and the labels both shifted ends as concept drift.\<close>

theorem drift_type_guarded_by_affected_features_witness:
  "map_sum id (\<lambda>r. (affected_features (fst r), drift_type (fst r)))
     (detect_drift (sample_tests (1 / 2))
        ((steady_detector (replicate 30 1))\<lparr>reference_features := Some (replicate 30 [5])\<rparr>))
   = Inr ([0], ''concept_drift'')"
proof -
  let ?d = "(steady_detector (replicate 30 1))\<lparr>reference_features := Some (replicate 30 [5])\<rparr>"
  let ?t = "sample_tests (1 / 2)"
  have a: "reference_features ?d = Some (replicate 30 [5])" by simp
  have b: "30 \<le> length (current_features ?d)" by (simp add: steady_detector_def steady_state_def)
  have rect: "rectangular (replicate 30 [5::real])"
    using ncols_replicate_append[of 30 "[5::real]" "[]"]
    by (simp add: rectangular_def list_all_iff)
  have shape: "rectangular (current_features ?d)" "rectangular (replicate 30 [5::real])"
    "n_features ?d \<le> ncols (replicate 30 [5::real])"
    "n_features ?d \<le> ncols (current_features ?d)"
    "n_features ?d \<le> length (adwin_detectors ?d)"
    using steady_rectangular rect ncols_replicate_append[of 30 "[5::real]" "[]"]
    by (simp_all add: steady_detector_def steady_state_def ncols_replicate)
  from detect_drift_returns[OF a b shape, of ?t] obtain res d' where
    run: "detect_drift ?t ?d = Inr (res, d')" by blast
  note full = detect_drift_full[OF a b run]
  have ne: "replicate 30 (5::real) \<noteq> replicate 30 2" by (rule replicate_5_2)
  have n: "n_features ?d = 1" by (simp add: steady_detector_def steady_state_def)
  have u: "[0 ..< 1] = [0::nat]" by simp
  have fa: "feature_is_affected ?t ?d (replicate 30 [5]) 0"
    using ne
    by (simp add: feature_is_affected_def sample_tests_def steady_detector_def steady_state_def
        kolmogorov_smirnov_test_def Let_def)
  have "affected_features res
          = filter (feature_is_affected ?t ?d (replicate 30 [5])) [0 ..< n_features ?d]"
    by (subst full) simp
  then have aff: "affected_features res = [0]" unfolding n u using fa by simp
  have det: "result_details res
      = SignalDetails
          \<lparr>feature_drift = map (feature_signal ?t ?d (replicate 30 [5])) [0 ..< n_features ?d],
           prediction_drift = prediction_signal ?t ?d, concept_drift = concept_signal ?t ?d\<rparr>"
    by (subst full) simp
  note lab = labels_30[THEN not_sym]
  have c: "concept_signal ?t ?d
             = Some \<lparr>concept_psi = 1 / 2, concept_drift_score = 1 / 2 / (2 / 10) * 100\<rparr>"
    using lab
    by (simp add: concept_signal_def steady_detector_def steady_state_def sample_tests_def)
  from drift_type_guarded_by_affected_features[OF a b run] det aff c
  have "drift_type res = ''concept_drift''" by auto
  with run aff show ?thesis by simp
qed

end
